theory Spec2Isabelle
  imports Main "HOL-Library.Sublist" "HOL-Library.Multiset"
begin

section \<open>The prefix pattern of the rename engine\<close>

text \<open>
  A string of this theory is the UTF-8 form of a JavaScript string, the form in which paths,
  file names and file contents are on disk: a list of bytes. JavaScript counts and matches
  in UTF-16 code units; where that makes a difference it is written out below (the length
  of a string, the dot of a pattern).

  \<^verbatim>\<open>rename.ts\<close>, line 94, builds the pattern
  \<^verbatim>\<open>new RegExp(`${from}(?!.*${from})`)\<close>
  from the project's current card key prefix and applies it, without the global flag, in
  \<^verbatim>\<open>card.path.replace(re, to)\<close> and \<^verbatim>\<open>attachment.fileName.replace(re, to)\<close>.
\<close>

text \<open>
  The dot of a JavaScript pattern matches every code unit but a line terminator: line
  feed, carriage return, and the line and paragraph separators U+2028 and U+2029, which
  are the bytes \<^verbatim>\<open>E2 80 A8\<close> and \<^verbatim>\<open>E2 80 A9\<close>. \<open>line_terminator_at r\<close>: a line
  terminator stands at the start of \<open>r\<close>.
\<close>

definition line_terminator_at :: "string \<Rightarrow> bool" where
  "line_terminator_at r \<longleftrightarrow>
     prefix [CHR 0x0A] r \<or> prefix [CHR 0x0D] r \<or>
     prefix [CHR 0xE2, CHR 0x80, CHR 0xA8] r \<or> prefix [CHR 0xE2, CHR 0x80, CHR 0xA9] r"

fun has_line_terminator :: "string \<Rightarrow> bool" where
  "has_line_terminator [] = False"
| "has_line_terminator (c # cs) = (line_terminator_at (c # cs) \<or> has_line_terminator cs)"

text \<open>
  \<open>lookahead frm r\<close>: the sub-pattern \<^verbatim>\<open>.*from\<close> matches at the start of \<open>r\<close>,
  that is, after some run in which no line terminator starts the prefix follows.
\<close>

fun lookahead :: "string \<Rightarrow> string \<Rightarrow> bool" where
  "lookahead frm [] = (frm = [])"
| "lookahead frm (c # cs) =
     (prefix frm (c # cs) \<or> (\<not> line_terminator_at (c # cs) \<and> lookahead frm cs))"

text \<open>
  The index of the first match of \<^verbatim>\<open>from(?!.*from)\<close> in a string, for a prefix that
  the pattern takes literally, scanning start positions from the left as the engine
  does; \<open>None\<close> when there is no match.
\<close>

fun regex_search :: "string \<Rightarrow> string \<Rightarrow> nat option" where
  "regex_search frm [] = (if frm = [] \<and> \<not> lookahead frm [] then Some 0 else None)"
| "regex_search frm (c # cs) =
     (if prefix frm (c # cs) \<and> \<not> lookahead frm (drop (length frm) (c # cs)) then Some 0
      else map_option Suc (regex_search frm cs))"

text \<open>
  The replacement string of \<^verbatim>\<open>String.prototype.replace\<close> is not inserted as it
  is: \<^verbatim>\<open>$$\<close> stands for a dollar sign, \<^verbatim>\<open>$&\<close> for the matched text,
  \<^verbatim>\<open>$`\<close> for the text before the match and \<^verbatim>\<open>$'\<close> for the text after it.
  The pattern has no capture group, so \<^verbatim>\<open>$1\<close> and \<^verbatim>\<open>$<name>\<close> stay as written.
  The arguments are the matched text, the text before, the text after and the replacement.
\<close>

fun get_substitution :: "string \<Rightarrow> string \<Rightarrow> string \<Rightarrow> string \<Rightarrow> string" where
  "get_substitution m b a [] = []"
| "get_substitution m b a [c] = [c]"
| "get_substitution m b a (c # d # r) =
     (if c = CHR ''$'' then
        (if d = CHR ''$'' then CHR ''$'' # get_substitution m b a r
         else if d = CHR ''&'' then m @ get_substitution m b a r
         else if d = CHR 0x60 then b @ get_substitution m b a r
         else if d = CHR 0x27 then a @ get_substitution m b a r
         else c # get_substitution m b a (d # r))
      else c # get_substitution m b a (d # r))"

text \<open>
  \<^verbatim>\<open>s.replace(re, to)\<close> for the pattern of a prefix taken literally: the first match is
  replaced, a string without a match is returned as it is.
\<close>

definition replace_re :: "string \<Rightarrow> string \<Rightarrow> string \<Rightarrow> string" where
  "replace_re frm to s =
     (case regex_search frm s of
        None \<Rightarrow> s
      | Some i \<Rightarrow>
          take i s @ get_substitution frm (take i s) (drop (i + length frm) s) to
            @ drop (i + length frm) s)"

subsection \<open>The constructor\<close>

text \<open>
  A regular expression object is taken by what \<^verbatim>\<open>replace\<close> does with it: the function
  from the replacement and the subject to \<^verbatim>\<open>subject.replace(re, replacement)\<close>. The
  engine of the JavaScript runtime, \<^verbatim>\<open>new RegExp(source, flags)\<close>, is a parameter:
  \<open>None\<close> when the constructor throws a \<^verbatim>\<open>SyntaxError\<close>.
\<close>

type_synonym regexp = "string \<Rightarrow> string \<Rightarrow> string"

type_synonym regexp_engine = "string \<Rightarrow> string \<Rightarrow> regexp option"

text \<open>
  The syntax characters of a pattern. A prefix that holds none of them stands for
  itself in the pattern: such a prefix is literal. The prefixes of card keys are lower
  case letters (the card key pattern of the data model is \<^verbatim>\<open>^[a-z]+_[0-9]+$\<close>).
\<close>

definition syntax_character :: "char \<Rightarrow> bool" where
  "syntax_character c \<longleftrightarrow> c \<in> set (''^$.*+?()[]{}|'' @ [CHR 0x5C])"

definition literal :: "string \<Rightarrow> bool" where
  "literal frm \<longleftrightarrow> list_all (\<lambda>c. \<not> syntax_character c) frm"

text \<open>The template literal of line 94.\<close>

definition prefix_source :: "string \<Rightarrow> string" where
  "prefix_source frm = frm @ ''(?!.*'' @ frm @ '')''"

text \<open>
  Line 94, \<^verbatim>\<open>new RegExp(`${from}(?!.*${from})`)\<close>. For a literal prefix the object is
  the one whose matches are defined above; for a prefix with a syntax character the
  pattern means something else, and the object is what the engine makes of the source.
\<close>

definition new_RegExp_prefix :: "regexp_engine \<Rightarrow> string \<Rightarrow> regexp option" where
  "new_RegExp_prefix new_RegExp frm =
     (if literal frm then Some (replace_re frm) else new_RegExp (prefix_source frm) [])"

subsection \<open>Occurrences of the prefix\<close>

text \<open>
  The words of the specification: the start positions of all occurrences of the prefix in
  a string, in increasing order, the last of them, and the occurrences a scan from the
  left finds when it continues behind each occurrence found (the non-overlapping ones).
\<close>

fun occurrences :: "string \<Rightarrow> string \<Rightarrow> nat list" where
  "occurrences frm [] = (if frm = [] then [0] else [])"
| "occurrences frm (c # cs) =
     (if prefix frm (c # cs) then [0] else []) @ map Suc (occurrences frm cs)"

definition last_occurrence :: "string \<Rightarrow> string \<Rightarrow> nat option" where
  "last_occurrence frm s =
     (if occurrences frm s = [] then None else Some (last (occurrences frm s)))"

fun nonoverlapping :: "nat \<Rightarrow> nat \<Rightarrow> nat list \<Rightarrow> nat list" where
  "nonoverlapping n free [] = []"
| "nonoverlapping n free (i # is) =
     (if free \<le> i then i # nonoverlapping n (i + n) is else nonoverlapping n free is)"

definition last_nonoverlapping_occurrence :: "string \<Rightarrow> string \<Rightarrow> nat option" where
  "last_nonoverlapping_occurrence frm s =
     (let occs = nonoverlapping (length frm) 0 (occurrences frm s)
      in if occs = [] then None else Some (last occs))"

definition occurs_at :: "string \<Rightarrow> string \<Rightarrow> nat \<Rightarrow> bool" where
  "occurs_at frm s i \<longleftrightarrow> i \<le> length s \<and> prefix frm (drop i s)"

text \<open>An occurrence behind whose end the pattern's lookahead finds no further occurrence.\<close>

definition final_at :: "string \<Rightarrow> string \<Rightarrow> nat \<Rightarrow> bool" where
  "final_at frm s i \<longleftrightarrow> occurs_at frm s i \<and> \<not> lookahead frm (drop (i + length frm) s)"

lemma occurs_at_Nil: "occurs_at frm [] i \<longleftrightarrow> i = 0 \<and> frm = []"
  by (auto simp: occurs_at_def)

lemma occurs_at_Cons:
  "occurs_at frm (c # cs) i \<longleftrightarrow>
     (i = 0 \<and> prefix frm (c # cs)) \<or> (\<exists>j. i = Suc j \<and> occurs_at frm cs j)"
  by (cases i) (auto simp: occurs_at_def)

lemma set_occurrences: "set (occurrences frm s) = {i. occurs_at frm s i}"
  by (induction s) (auto simp: occurs_at_Nil occurs_at_Cons)

lemma sorted_occurrences: "sorted_wrt (<) (occurrences frm s)"
  by (induction s) (auto simp: sorted_wrt_append sorted_wrt_map)

lemma has_line_terminator_iff:
  "has_line_terminator s \<longleftrightarrow> (\<exists>j<length s. line_terminator_at (drop j s))"
proof (induction s)
  case Nil
  then show ?case by simp
next
  case (Cons c cs)
  have "(\<exists>j<length (c # cs). line_terminator_at (drop j (c # cs))) \<longleftrightarrow>
        line_terminator_at (c # cs) \<or> (\<exists>j<length cs. line_terminator_at (drop j cs))"
  proof
    assume "\<exists>j<length (c # cs). line_terminator_at (drop j (c # cs))"
    then obtain j where j: "j < length (c # cs)" "line_terminator_at (drop j (c # cs))" by blast
    then show "line_terminator_at (c # cs) \<or> (\<exists>j<length cs. line_terminator_at (drop j cs))"
      by (cases j) auto
  next
    assume "line_terminator_at (c # cs) \<or> (\<exists>j<length cs. line_terminator_at (drop j cs))"
    then show "\<exists>j<length (c # cs). line_terminator_at (drop j (c # cs))"
    proof
      assume "line_terminator_at (c # cs)"
      then show ?thesis by (intro exI[of _ 0]) simp
    next
      assume "\<exists>j<length cs. line_terminator_at (drop j cs)"
      then obtain j where "j < length cs" "line_terminator_at (drop j cs)" by blast
      then show ?thesis by (intro exI[of _ "Suc j"]) simp
    qed
  qed
  with Cons.IH show ?case by simp
qed

lemma lookahead_iff:
  "lookahead frm r \<longleftrightarrow>
     (\<exists>k\<le>length r. (\<forall>j<k. \<not> line_terminator_at (drop j r)) \<and> prefix frm (drop k r))"
proof (induction r)
  case Nil
  then show ?case by simp
next
  case (Cons c cs)
  show ?case
  proof
    assume "lookahead frm (c # cs)"
    then consider "prefix frm (c # cs)" | "\<not> line_terminator_at (c # cs)" "lookahead frm cs"
      by auto
    then show "\<exists>k\<le>length (c # cs).
        (\<forall>j<k. \<not> line_terminator_at (drop j (c # cs))) \<and> prefix frm (drop k (c # cs))"
    proof cases
      case 1
      then show ?thesis by (intro exI[of _ 0]) simp
    next
      case 2
      then obtain k where k: "k \<le> length cs" "\<forall>j<k. \<not> line_terminator_at (drop j cs)"
        "prefix frm (drop k cs)"
        using Cons.IH by blast
      have "\<not> line_terminator_at (drop j (c # cs))" if "j < Suc k" for j
        using that 2(1) k(2) by (cases j) auto
      with k show ?thesis by (intro exI[of _ "Suc k"]) simp
    qed
  next
    assume "\<exists>k\<le>length (c # cs).
        (\<forall>j<k. \<not> line_terminator_at (drop j (c # cs))) \<and> prefix frm (drop k (c # cs))"
    then obtain k where k: "k \<le> length (c # cs)"
      "\<forall>j<k. \<not> line_terminator_at (drop j (c # cs))" "prefix frm (drop k (c # cs))"
      by blast
    show "lookahead frm (c # cs)"
    proof (cases k)
      case 0
      with k show ?thesis by simp
    next
      case (Suc i)
      with k(2) have first: "\<not> line_terminator_at (c # cs)"
        by (metis drop0 zero_less_Suc)
      have "\<not> line_terminator_at (drop j cs)" if "j < i" for j
        using k(2) that Suc by (metis Suc_less_eq drop_Suc_Cons)
      with k Suc have "\<exists>k\<le>length cs. (\<forall>j<k. \<not> line_terminator_at (drop j cs)) \<and> prefix frm (drop k cs)"
        by (intro exI[of _ i]) simp
      with first show ?thesis using Cons.IH by simp
    qed
  qed
qed

lemma final_at_Nil: "\<not> final_at frm [] i"
  by (auto simp: final_at_def occurs_at_Nil)

lemma final_at_Cons:
  "final_at frm (c # cs) i \<longleftrightarrow>
     (i = 0 \<and> prefix frm (c # cs) \<and> \<not> lookahead frm (drop (length frm) (c # cs)))
     \<or> (\<exists>j. i = Suc j \<and> final_at frm cs j)"
  by (cases i) (auto simp: final_at_def occurs_at_Cons)

text \<open>What the pattern matches: the leftmost occurrence that no occurrence follows.\<close>

lemma regex_search_Some_iff:
  "regex_search frm s = Some i \<longleftrightarrow> final_at frm s i \<and> (\<forall>j<i. \<not> final_at frm s j)"
proof (induction s arbitrary: i)
  case Nil
  then show ?case by (auto simp: final_at_Nil)
next
  case (Cons c cs)
  show ?case
  proof (cases "prefix frm (c # cs) \<and> \<not> lookahead frm (drop (length frm) (c # cs))")
    case True
    then have "final_at frm (c # cs) 0" by (simp add: final_at_Cons)
    with True show ?thesis by (cases i) auto
  next
    case False
    then have nz: "\<not> final_at frm (c # cs) 0" by (auto simp: final_at_Cons)
    show ?thesis
    proof (cases i)
      case 0
      with False nz show ?thesis by auto
    next
      case (Suc k)
      have "(\<forall>j<Suc k. \<not> final_at frm (c # cs) j) \<longleftrightarrow> (\<forall>j<k. \<not> final_at frm cs j)"
        using nz by (auto simp: final_at_Cons less_Suc_eq_0_disj)
      with False Suc Cons.IH[of k] show ?thesis by (auto simp: final_at_Cons)
    qed
  qed
qed

lemma regex_search_None_iff: "regex_search frm s = None \<longleftrightarrow> (\<forall>i. \<not> final_at frm s i)"
  by (induction s) (auto simp: final_at_Nil final_at_Cons)

lemma get_substitution_plain: "CHR ''$'' \<notin> set to \<Longrightarrow> get_substitution m b a to = to"
  by (induction m b a to rule: get_substitution.induct) auto


lemma occurrence_le_last:
  assumes "j \<in> set (occurrences frm s)"
  shows "j \<le> last (occurrences frm s)"
proof -
  from assms obtain i where i: "i < length (occurrences frm s)" "occurrences frm s ! i = j"
    by (auto simp: in_set_conv_nth)
  have ne: "occurrences frm s \<noteq> []" using assms by auto
  have "sorted (occurrences frm s)"
    using sorted_occurrences[of frm s] by (simp add: strict_sorted_iff)
  then have "occurrences frm s ! i \<le> occurrences frm s ! (length (occurrences frm s) - 1)"
    using i by (intro sorted_nth_mono) auto
  with i ne show ?thesis by (simp add: last_conv_nth)
qed

text \<open>
  Where the pattern does what the comment of lines 91 to 93 says. In a string without
  line terminators in which every other occurrence of a literal prefix ends before the
  last occurrence begins, the match is the last occurrence: everything before it (earlier
  occurrences included) and everything behind it is kept, and the new prefix stands in
  its place.
\<close>

lemma replace_re_last_occurrence:
  assumes ne: "frm \<noteq> []"
    and lt: "\<not> has_line_terminator s"
    and occ: "occurrences frm s \<noteq> []"
    and apart: "list_all (\<lambda>j. j = last (occurrences frm s) \<or> j + length frm \<le> last (occurrences frm s))
                  (occurrences frm s)"
    and plain: "CHR ''$'' \<notin> set to"
  shows "regex_search frm s = last_occurrence frm s \<and>
         replace_re frm to s =
           take (last (occurrences frm s)) s @ to @ drop (last (occurrences frm s) + length frm) s"
proof -
  define l where "l = last (occurrences frm s)"
  have l_occ: "occurs_at frm s l"
    using occ set_occurrences[of frm s] last_in_set[of "occurrences frm s"] by (auto simp: l_def)
  have no_later: "\<not> lookahead frm (drop (l + length frm) s)"
  proof
    assume "lookahead frm (drop (l + length frm) s)"
    then obtain k where k: "k \<le> length (drop (l + length frm) s)"
      "prefix frm (drop k (drop (l + length frm) s))"
      unfolding lookahead_iff by blast
    have "l + length frm \<le> length s"
      using l_occ by (auto simp: occurs_at_def dest: prefix_length_le)
    with k have "occurs_at frm s (l + length frm + k)"
      by (auto simp: occurs_at_def add.commute add.left_commute)
    then have "l + length frm + k \<le> l"
      using occurrence_le_last[of "l + length frm + k" frm s] set_occurrences[of frm s]
      by (auto simp: l_def)
    with ne show False by simp
  qed
  have fin: "final_at frm s l" using l_occ no_later by (simp add: final_at_def)
  have earlier: "\<not> final_at frm s j" if "j < l" for j
  proof
    assume f: "final_at frm s j"
    then have "j \<in> set (occurrences frm s)" by (simp add: set_occurrences final_at_def)
    with apart that have le: "j + length frm \<le> l"
      by (auto simp: list_all_iff l_def)
    have ll: "l \<le> length s" using l_occ by (simp add: occurs_at_def)
    have "\<not> line_terminator_at (drop i (drop (j + length frm) s))" if "i < l - (j + length frm)" for i
    proof -
      from that le ll have "i + (j + length frm) < length s"
        using ne l_occ by (auto simp: occurs_at_def dest!: prefix_length_le)
      with lt show ?thesis
        by (auto simp: has_line_terminator_iff add.commute)
    qed
    moreover have "prefix frm (drop (l - (j + length frm)) (drop (j + length frm) s))"
      using l_occ le by (simp add: occurs_at_def)
    moreover have "l - (j + length frm) \<le> length (drop (j + length frm) s)"
      using ll by simp
    ultimately have "lookahead frm (drop (j + length frm) s)"
      unfolding lookahead_iff by blast
    with f show False by (simp add: final_at_def)
  qed
  have rs: "regex_search frm s = Some l"
    using fin earlier by (simp add: regex_search_Some_iff)
  then show ?thesis
    using occ plain by (simp add: replace_re_def last_occurrence_def l_def get_substitution_plain)
qed

text \<open>The example of the comment in \<^verbatim>\<open>rename.ts\<close>, lines 91 to 93.\<close>

lemma replace_re_comment_example:
  "replace_re ''matti'' ''teppo'' ''/Users/matti/projects/card-projects/matti-project/cardroot/matti_1''
     = ''/Users/matti/projects/card-projects/matti-project/cardroot/teppo_1''
   \<and> regex_search ''matti'' ''/Users/matti/projects/card-projects/matti-project/cardroot/matti_1''
     = last_occurrence ''matti'' ''/Users/matti/projects/card-projects/matti-project/cardroot/matti_1''"
  by (simp add: replace_re_def last_occurrence_def line_terminator_at_def)

text \<open>
  Claim C4, at the lower case prefix \<^verbatim>\<open>aa\<close> and the attachment file name
  \<^verbatim>\<open>aaaa.png\<close>. The prefix is literal, so the object that line 94 constructs is the one
  defined above, whatever the engine. The comment of lines 91 to 93 says that only the
  last occurrence is replaced; the last occurrence, and the last non-overlapping one,
  starts at index 2, and the pattern matches at index 1: the lookahead only rules out
  an occurrence that starts behind the end of the match, and the occurrence at index 2
  starts inside it. The file is renamed to \<^verbatim>\<open>axyza.png\<close>, not to \<^verbatim>\<open>aaxyz.png\<close>.
\<close>

theorem regex_not_last_occurrence:
  "new_RegExp_prefix new_RegExp ''aa'' = Some (replace_re ''aa'')
   \<and> regex_search ''aa'' ''aaaa.png'' = Some 1
   \<and> last_occurrence ''aa'' ''aaaa.png'' = Some 2
   \<and> last_nonoverlapping_occurrence ''aa'' ''aaaa.png'' = Some 2
   \<and> replace_re ''aa'' ''xyz'' ''aaaa.png'' = ''axyza.png''
   \<and> take 2 ''aaaa.png'' @ ''xyz'' @ drop (2 + length ''aa'') ''aaaa.png'' = ''aaxyz.png''"
  by (simp add: new_RegExp_prefix_def literal_def syntax_character_def last_occurrence_def
      last_nonoverlapping_occurrence_def replace_re_def line_terminator_at_def)

section \<open>Data of the card store\<close>

text \<open>
  A JavaScript exception is a value: \<open>Error\<close> carries the message of a
  \<^verbatim>\<open>throw new Error(...)\<close>, \<open>SyntaxError\<close> the source of a pattern that
  \<^verbatim>\<open>new RegExp\<close> refuses, \<open>SystemError\<close> the code and the path of a failed file
  system call.
\<close>

datatype error =
    Error string
  | SyntaxError string
  | SystemError string string
  | NotAProjectError string

text \<open>
  The interfaces of \<^verbatim>\<open>interfaces/project-interfaces.ts\<close> are not among the sources; the
  records hold the fields \<^verbatim>\<open>create.ts\<close> and \<^verbatim>\<open>rename.ts\<close> read and write. An
  optional property is an \<open>option\<close>. The metadata fields are those of the card base
  schema (\<^verbatim>\<open>title\<close>, \<^verbatim>\<open>cardtype\<close>, \<^verbatim>\<open>workflowState\<close>, \<^verbatim>\<open>rank\<close>,
  \<^verbatim>\<open>links\<close>).
\<close>

record link =
  linkType :: string
  cardKey :: string
  linkDescription :: "string option"

record metadata =
  cardtype :: string
  title :: string
  workflowState :: string
  rank :: string
  links :: "link list option"

record attachment =
  attachment_path :: string
  fileName :: string

record card =
  key :: string
  path :: string
  content :: "string option"
  metadata :: "metadata option"
  attachments :: "attachment list option"

text \<open>
  The options object of the card enumeration: which parts of a card are to be read. A
  property that the caller leaves out is \<open>None\<close>.
\<close>

record fetchCardDetails =
  d_attachments :: "bool option"
  d_children :: "bool option"
  d_content :: "bool option"
  d_metadata :: "bool option"

record template =
  template_name :: string
  template_path :: string

section \<open>The rename engine\<close>

text \<open>
  What \<^verbatim>\<open>rename.ts\<close> does to the outside, in the order it does it:
  \<^verbatim>\<open>rename(old, new)\<close> and \<^verbatim>\<open>writeFile(path, data)\<close> of
  \<^verbatim>\<open>node:fs/promises\<close>, the call \<^verbatim>\<open>configuration.setCardPrefix(to)\<close>, and the
  event it emits.
\<close>

datatype effect =
    Rename string string
  | WriteFile string string
  | SetCardPrefix string
  | Emit string string

text \<open>
  The classes \<^verbatim>\<open>Project\<close> and \<^verbatim>\<open>Template\<close> (\<^verbatim>\<open>containers/project.ts\<close>,
  \<^verbatim>\<open>containers/template.ts\<close>) are not among the sources. What \<^verbatim>\<open>rename.ts\<close> reads
  from them is a parameter: the base path, the card root folder, the configured prefix,
  the enumeration \<^verbatim>\<open>Project.cards(path, details)\<close>, the local templates
  \<^verbatim>\<open>Project.templates(true)\<close>, the enumeration \<^verbatim>\<open>Template.cards(path, details)\<close> of a
  template, and \<^verbatim>\<open>Project.isTemplateCard\<close>.
\<close>

record project =
  basePath :: string
  cardrootFolder :: string
  cardkeyPrefix :: string
  cards :: "string \<Rightarrow> fetchCardDetails \<Rightarrow> card list"
  templates :: "template list"
  template_cards :: "template \<Rightarrow> string \<Rightarrow> fetchCardDetails \<Rightarrow> card list"
  isTemplateCard :: "card \<Rightarrow> bool"

text \<open>
  \<^verbatim>\<open>path.join\<close> of two segments on a POSIX system, for segments that need no
  normalisation (no trailing separator, no \<^verbatim>\<open>.\<close> or \<^verbatim>\<open>..\<close> segment).
\<close>

definition join :: "string \<Rightarrow> string \<Rightarrow> string" where
  "join a b = a @ ''/'' @ b"

text \<open>
  The property \<^verbatim>\<open>length\<close> of a JavaScript string counts UTF-16 code units. Of the
  bytes of the UTF-8 form, a continuation byte (\<^verbatim>\<open>80\<close> to \<^verbatim>\<open>BF\<close>) adds nothing, the
  first byte of a four byte sequence (\<^verbatim>\<open>F0\<close> and above) stands for a surrogate pair,
  and every other byte for one code unit.
\<close>

definition utf16_units :: "char \<Rightarrow> nat" where
  "utf16_units c =
     (let n = (of_char c :: nat)
      in if n < 0x80 then 1 else if n < 0xC0 then 0 else if n < 0xF0 then 1 else 2)"

definition js_length :: "string \<Rightarrow> nat" where
  "js_length s = sum_list (map utf16_units s)"

text \<open>\<^verbatim>\<open>Rename.sortCards\<close>, lines 39 to 47: the longer path first.\<close>

definition sortCards :: "card \<Rightarrow> card \<Rightarrow> int" where
  "sortCards a b =
     (if js_length (path a) > js_length (path b) then - 1
      else if js_length (path a) < js_length (path b) then 1
      else 0)"

text \<open>
  \<^verbatim>\<open>Array.prototype.sort\<close> with a comparator is a stable sort: elements the
  comparator does not separate keep their order. Insertion from the right is one.
\<close>

fun insert_sorted :: "('a \<Rightarrow> 'a \<Rightarrow> int) \<Rightarrow> 'a \<Rightarrow> 'a list \<Rightarrow> 'a list" where
  "insert_sorted cmp x [] = [x]"
| "insert_sorted cmp x (y # ys) =
     (if cmp x y \<le> 0 then x # y # ys else y # insert_sorted cmp x ys)"

fun array_sort :: "('a \<Rightarrow> 'a \<Rightarrow> int) \<Rightarrow> 'a list \<Rightarrow> 'a list" where
  "array_sort cmp [] = []"
| "array_sort cmp (x # xs) = insert_sorted cmp x (array_sort cmp xs)"

text \<open>
  \<^verbatim>\<open>Rename.replaceCardPath\<close>, lines 50 to 81. \<^verbatim>\<open>attachments.map\<close> runs each
  callback up to its first \<^verbatim>\<open>await\<close>, so the renames of the attachment files are
  issued first, in the order of the attachments. The rest of each callback constructs
  the pattern \<^verbatim>\<open>image::<file name>\<close> with the flag \<^verbatim>\<open>g\<close>, rewrites
  \<^verbatim>\<open>card.content\<close> (an absent content stays absent) and writes
  \<^verbatim>\<open>card.content || ''\<close> to \<^verbatim>\<open>index.adoc\<close>; the callbacks are resumed here in the
  order of the attachments, one of the schedules the event loop allows. A pattern that
  the constructor refuses rejects its callback before it writes; the other callbacks
  are not cancelled and run to their end. \<^verbatim>\<open>Promise.all\<close> is rejected with the first
  rejection, and then the card's own directory is not renamed; otherwise it is renamed
  when all callbacks are done.

  The value is the list of the calls made, with the error or the new path, in a run in
  which no call of the file system is rejected.
\<close>

definition attachment_renames :: "regexp \<Rightarrow> string \<Rightarrow> attachment list \<Rightarrow> effect list" where
  "attachment_renames re to as =
     map (\<lambda>a. Rename (join (attachment_path a) (fileName a))
                      (join (attachment_path a) (re to (fileName a)))) as"

text \<open>The template literal \<^verbatim>\<open>`image::${name}`\<close> of lines 68 and 71.\<close>

definition image_reference :: "string \<Rightarrow> string" where
  "image_reference name = ''image::'' @ name"

definition or_empty :: "string option \<Rightarrow> string" where
  "or_empty c = (case c of None \<Rightarrow> [] | Some s \<Rightarrow> s)"

fun attachment_writes ::
  "regexp_engine \<Rightarrow> regexp \<Rightarrow> string \<Rightarrow> string \<Rightarrow> string option \<Rightarrow> attachment list
     \<Rightarrow> effect list \<times> error option" where
  "attachment_writes new_RegExp re to p c [] = ([], None)"
| "attachment_writes new_RegExp re to p c (a # as) =
     (case new_RegExp (image_reference (fileName a)) ''g'' of
        None \<Rightarrow>
          (fst (attachment_writes new_RegExp re to p c as),
           Some (SyntaxError (image_reference (fileName a))))
      | Some contentRe \<Rightarrow>
          (let c' = map_option (contentRe (image_reference (re to (fileName a)))) c;
               rest = attachment_writes new_RegExp re to p c' as
           in (WriteFile (join p ''index.adoc'') (or_empty c') # fst rest, snd rest)))"

definition replaceCardPath ::
  "project \<Rightarrow> regexp_engine \<Rightarrow> regexp \<Rightarrow> string \<Rightarrow> card \<Rightarrow> effect list \<times> (error + string)" where
  "replaceCardPath pr new_RegExp re to c =
     (let newCardPath = re to (path c)
      in if \<not> isTemplateCard pr c then
           (let as = (case attachments c of Some as \<Rightarrow> as | None \<Rightarrow> []);
                ws = attachment_writes new_RegExp re to (path c) (content c) as
            in case snd ws of
                 Some e \<Rightarrow> (attachment_renames re to as @ fst ws, Inl e)
               | None \<Rightarrow>
                   (attachment_renames re to as @ fst ws @ [Rename (path c) newCardPath],
                    Inr newCardPath))
         else ([Rename (path c) newCardPath], Inr newCardPath))"

text \<open>
  The loops of lines 110 to 112 and 130 to 132: one card after the other; the first
  rejection ends the loop.
\<close>

fun rename_cards ::
  "project \<Rightarrow> regexp_engine \<Rightarrow> regexp \<Rightarrow> string \<Rightarrow> card list \<Rightarrow> effect list \<times> error option" where
  "rename_cards pr new_RegExp re to [] = ([], None)"
| "rename_cards pr new_RegExp re to (c # cs) =
     (case replaceCardPath pr new_RegExp re to c of
        (ops, Inl e) \<Rightarrow> (ops, Some e)
      | (ops, Inr _) \<Rightarrow>
          (let rest = rename_cards pr new_RegExp re to cs in (ops @ fst rest, snd rest)))"

text \<open>The options of both enumerations: \<^verbatim>\<open>{ metadata: true, attachments: true }\<close>.\<close>

definition rename_details :: fetchCardDetails where
  "rename_details =
     \<lparr>d_attachments = Some True, d_children = None, d_content = None, d_metadata = Some True\<rparr>"

text \<open>Lines 116 to 133: the cards of every local template, each template sorted on its own.\<close>

fun rename_templates ::
  "project \<Rightarrow> regexp_engine \<Rightarrow> regexp \<Rightarrow> string \<Rightarrow> template list \<Rightarrow> effect list \<times> error option" where
  "rename_templates pr new_RegExp re to [] = ([], None)"
| "rename_templates pr new_RegExp re to (t # ts) =
     (case rename_cards pr new_RegExp re to
             (array_sort sortCards (template_cards pr t [] rename_details)) of
        (ops, Some e) \<Rightarrow> (ops, Some e)
      | (ops, None) \<Rightarrow>
          (let rest = rename_templates pr new_RegExp re to ts in (ops @ fst rest, snd rest)))"

text \<open>
  \<^verbatim>\<open>Rename.rename\<close>, lines 88 to 136, for a project that the constructor of line 89
  has loaded. The prefix is read and the pattern constructed before the prefix is set;
  a rejection ends the run before the event is emitted. The value is the list of the
  calls made and the error of the run, if it has one, in a run in which no call of the
  file system is rejected.
\<close>

definition rename :: "project \<Rightarrow> regexp_engine \<Rightarrow> string \<Rightarrow> effect list \<times> error option" where
  "rename pr new_RegExp to =
     (let frm = cardkeyPrefix pr
      in case new_RegExp_prefix new_RegExp frm of
           None \<Rightarrow> ([], Some (SyntaxError (prefix_source frm)))
         | Some re \<Rightarrow>
             (let projectCards = array_sort sortCards (cards pr (cardrootFolder pr) rename_details)
              in case rename_cards pr new_RegExp re to projectCards of
                   (ops, Some e) \<Rightarrow> (SetCardPrefix to # ops, Some e)
                 | (ops, None) \<Rightarrow>
                     (case rename_templates pr new_RegExp re to (templates pr) of
                        (ops', Some e) \<Rightarrow> (SetCardPrefix to # ops @ ops', Some e)
                      | (ops', None) \<Rightarrow>
                          (SetCardPrefix to # ops @ ops' @ [Emit ''renamed'' (basePath pr)],
                           None))))"

text \<open>
  The enumerations of a run, in the order they are made: the cards of the project, then
  the cards of each local template. Each is sorted on its own.
\<close>

definition enumerations :: "project \<Rightarrow> card list list" where
  "enumerations pr =
     cards pr (cardrootFolder pr) rename_details
       # map (\<lambda>t. template_cards pr t [] rename_details) (templates pr)"

subsection \<open>Deepest first\<close>

text \<open>A path passes through a directory when the directory and a separator start it.\<close>

definition passes_through :: "string \<Rightarrow> string \<Rightarrow> bool" where
  "passes_through p dir \<longleftrightarrow> prefix (dir @ ''/'') p"

definition deeper_first :: "card \<Rightarrow> card \<Rightarrow> bool" where
  "deeper_first a b \<longleftrightarrow> js_length (path b) \<le> js_length (path a)"

definition strictly_deeper_first :: "card \<Rightarrow> card \<Rightarrow> bool" where
  "strictly_deeper_first a b \<longleftrightarrow> js_length (path b) < js_length (path a)"

definition card_at :: "string \<Rightarrow> string \<Rightarrow> card" where
  "card_at k p = \<lparr>key = k, path = p, content = None, metadata = None, attachments = None\<rparr>"



text \<open>The rename of a card's own directory, line 79.\<close>

definition directory_rename :: "regexp \<Rightarrow> string \<Rightarrow> card \<Rightarrow> effect" where
  "directory_rename re to c = Rename (path c) (re to (path c))"

lemma set_insert_sorted: "set (insert_sorted cmp x ys) = insert x (set ys)"
  by (induction ys) auto


lemma mset_insert_sorted: "mset (insert_sorted cmp x ys) = add_mset x (mset ys)"
  by (induction ys) auto

lemma mset_array_sort: "mset (array_sort cmp xs) = mset xs"
  by (induction xs) (auto simp: mset_insert_sorted)

lemma sorted_insert_sorted:
  "sorted_wrt deeper_first ys \<Longrightarrow> sorted_wrt deeper_first (insert_sorted sortCards x ys)"
  by (induction ys) (auto simp: set_insert_sorted sortCards_def deeper_first_def split: if_splits)

lemma sorted_array_sort: "sorted_wrt deeper_first (array_sort sortCards cs)"
  by (induction cs) (auto simp: sorted_insert_sorted)

text \<open>The sort is stable: the cards of one path length keep the order they had.\<close>

lemma stable_insert_sorted:
  "filter (\<lambda>c. js_length (path c) = n) (insert_sorted sortCards x ys)
     = filter (\<lambda>c. js_length (path c) = n) (x # ys)"
  by (induction ys) (auto simp: sortCards_def split: if_splits)

lemma stable_array_sort:
  "filter (\<lambda>c. js_length (path c) = n) (array_sort sortCards cs)
     = filter (\<lambda>c. js_length (path c) = n) cs"
  by (induction cs) (auto simp: stable_insert_sorted)

lemma js_length_append: "js_length (a @ b) = js_length a + js_length b"
  by (simp add: js_length_def)

lemma js_length_slash: "js_length ''/'' = 1"
  by (simp add: js_length_def utf16_units_def)

lemma not_passes_through: "js_length p \<le> js_length dir \<Longrightarrow> \<not> passes_through p dir"
proof
  assume le: "js_length p \<le> js_length dir" and "passes_through p dir"
  then obtain r where "p = dir @ ''/'' @ r"
    by (auto simp: passes_through_def prefix_def)
  then have "js_length p = js_length dir + 1 + js_length r"
    by (simp only: js_length_append js_length_slash)
  with le show False by simp
qed

lemma rename_cards_append:
  "rename_cards pr new_RegExp re to (xs @ ys) =
     (case rename_cards pr new_RegExp re to xs of
        (ops, Some e) \<Rightarrow> (ops, Some e)
      | (ops, None) \<Rightarrow>
          (ops @ fst (rename_cards pr new_RegExp re to ys),
           snd (rename_cards pr new_RegExp re to ys)))"
  by (induction xs) (auto simp: Let_def split: prod.splits sum.splits option.splits)

lemma rename_templates_concat:
  "rename_templates pr new_RegExp re to ts =
     rename_cards pr new_RegExp re to
       (concat (map (\<lambda>t. array_sort sortCards (template_cards pr t [] rename_details)) ts))"
  by (induction ts)
     (auto simp: rename_cards_append Let_def split: prod.splits sum.splits option.splits)

text \<open>
  A run is the loop over the cards of all enumerations, each sorted, between the call
  that sets the prefix and the event.
\<close>

lemma rename_unfold:
  assumes "new_RegExp_prefix new_RegExp (cardkeyPrefix pr) = Some re"
  shows "rename pr new_RegExp to =
           (case rename_cards pr new_RegExp re to
                   (concat (map (array_sort sortCards) (enumerations pr))) of
              (ops, Some e) \<Rightarrow> (SetCardPrefix to # ops, Some e)
            | (ops, None) \<Rightarrow> (SetCardPrefix to # ops @ [Emit ''renamed'' (basePath pr)], None))"
  using assms
  by (auto simp: rename_def enumerations_def rename_cards_append rename_templates_concat
      Let_def comp_def split: prod.splits sum.splits option.splits)

lemma replaceCardPath_ends:
  assumes "replaceCardPath pr new_RegExp re to c = (ops, Inr p)"
  shows "\<exists>pre. ops = pre @ [directory_rename re to c]"
  using assms
  by (auto simp: replaceCardPath_def directory_rename_def Let_def split: if_splits option.splits)

lemma rename_cards_directory_renames:
  assumes "rename_cards pr new_RegExp re to cs = (ops, None)"
  shows "subseq (map (directory_rename re to) cs) ops"
  using assms
proof (induction cs arbitrary: ops)
  case Nil
  then show ?case by simp
next
  case (Cons c cs)
  from Cons.prems obtain o1 p ops' where
    a: "replaceCardPath pr new_RegExp re to c = (o1, Inr p)"
    and b: "rename_cards pr new_RegExp re to cs = (ops', None)"
    and c: "ops = o1 @ ops'"
    by (auto simp: Let_def split: prod.splits sum.splits) (metis prod.collapse)
  from replaceCardPath_ends[OF a] obtain pre where "o1 = pre @ [directory_rename re to c]"
    by blast
  then have "subseq [directory_rename re to c] o1"
    by (simp add: list_emb_append2)
  from list_emb_append_mono[OF this Cons.IH[OF b]] show ?case
    by (simp add: c)
qed

text \<open>
  Claim C3, as the code has it. A run of \<open>rename\<close> is the loop of \<open>replaceCardPath\<close>
  over the cards of the project, sorted, and then over the cards of each local template,
  each template sorted on its own; in a run that completes, the directories of these
  cards are renamed in that order. Within each of these enumerations the path length
  never increases, the sorted list holds the same cards, and cards with paths of the
  same length (such as siblings) keep the order of the enumeration. So at every point of
  the loop over an enumeration, with some of its cards renamed and the others pending,
  no pending card's recorded path passes through the directory of a card that has been
  renamed: a card below another one is renamed before it.
\<close>

theorem rename_deepest_first:
  assumes "new_RegExp_prefix new_RegExp (cardkeyPrefix pr) = Some re"
  shows "rename pr new_RegExp to =
           (case rename_cards pr new_RegExp re to
                   (concat (map (array_sort sortCards) (enumerations pr))) of
              (ops, Some e) \<Rightarrow> (SetCardPrefix to # ops, Some e)
            | (ops, None) \<Rightarrow> (SetCardPrefix to # ops @ [Emit ''renamed'' (basePath pr)], None))
       \<and> (rename pr new_RegExp to = (effs, None) \<longrightarrow>
            subseq (map (directory_rename re to)
                      (concat (map (array_sort sortCards) (enumerations pr)))) effs)
       \<and> (cs \<in> set (enumerations pr) \<longrightarrow>
            sorted_wrt deeper_first (array_sort sortCards cs) \<and>
            mset (array_sort sortCards cs) = mset cs \<and>
            filter (\<lambda>c. js_length (path c) = n) (array_sort sortCards cs)
              = filter (\<lambda>c. js_length (path c) = n) cs \<and>
            (array_sort sortCards cs = renamed @ pending \<and> d \<in> set renamed \<and> c \<in> set pending
               \<longrightarrow> \<not> passes_through (path c) (path d)))"
proof (intro conjI impI)
  show "rename pr new_RegExp to =
           (case rename_cards pr new_RegExp re to
                   (concat (map (array_sort sortCards) (enumerations pr))) of
              (ops, Some e) \<Rightarrow> (SetCardPrefix to # ops, Some e)
            | (ops, None) \<Rightarrow> (SetCardPrefix to # ops @ [Emit ''renamed'' (basePath pr)], None))"
    by (rule rename_unfold[OF assms])
next
  assume run: "rename pr new_RegExp to = (effs, None)"
  then obtain ops where ops: "rename_cards pr new_RegExp re to
       (concat (map (array_sort sortCards) (enumerations pr))) = (ops, None)"
    and effs: "effs = SetCardPrefix to # ops @ [Emit ''renamed'' (basePath pr)]"
    unfolding rename_unfold[OF assms] by (auto split: prod.splits option.splits)
  from rename_cards_directory_renames[OF ops]
  have "subseq (map (directory_rename re to)
                  (concat (map (array_sort sortCards) (enumerations pr))))
          (ops @ [Emit ''renamed'' (basePath pr)])"
    by (rule list_emb_prefix)
  then show "subseq (map (directory_rename re to)
                  (concat (map (array_sort sortCards) (enumerations pr)))) effs"
    unfolding effs by (rule list_emb_Cons)
next
  show "sorted_wrt deeper_first (array_sort sortCards cs)"
    by (rule sorted_array_sort)
next
  show "mset (array_sort sortCards cs) = mset cs"
    by (rule mset_array_sort)
next
  show "filter (\<lambda>c. js_length (path c) = n) (array_sort sortCards cs)
          = filter (\<lambda>c. js_length (path c) = n) cs"
    by (rule stable_array_sort)
next
  assume a: "array_sort sortCards cs = renamed @ pending \<and> d \<in> set renamed \<and> c \<in> set pending"
  have "sorted_wrt deeper_first (renamed @ pending)"
    using sorted_array_sort[of cs] a by simp
  with a have "deeper_first d c" by (auto simp: sorted_wrt_append)
  then show "\<not> passes_through (path c) (path d)"
    by (intro not_passes_through) (simp add: deeper_first_def)
qed

text \<open>
  The card, child and grandchild of the specification, enumerated in another order; no
  pattern is asked of the engine.
\<close>

definition nested_project :: project where
  "nested_project =
     \<lparr>basePath = ''/p'', cardrootFolder = ''/p/cardroot'', cardkeyPrefix = ''abc'',
      cards = (\<lambda>p d. if p = ''/p/cardroot'' \<and> d = rename_details then
                 [card_at ''abc_1'' ''/p/cardroot/abc_1'',
                  card_at ''abc_3'' ''/p/cardroot/abc_1/c/abc_2/c/abc_3'',
                  card_at ''abc_2'' ''/p/cardroot/abc_1/c/abc_2'']
               else []),
      templates = [], template_cards = (\<lambda>t p d. []),
      isTemplateCard = (\<lambda>c. False)\<rparr>"

lemma path_card_at: "path (card_at k p) = p"
  by (simp add: card_at_def)

lemma nested_sorted:
  "array_sort sortCards
     [card_at ''abc_1'' ''/p/cardroot/abc_1'',
      card_at ''abc_3'' ''/p/cardroot/abc_1/c/abc_2/c/abc_3'',
      card_at ''abc_2'' ''/p/cardroot/abc_1/c/abc_2'']
   = [card_at ''abc_3'' ''/p/cardroot/abc_1/c/abc_2/c/abc_3'']
     @ [card_at ''abc_2'' ''/p/cardroot/abc_1/c/abc_2'', card_at ''abc_1'' ''/p/cardroot/abc_1'']"
  by code_simp

lemma nested_replace:
  "replace_re ''abc'' ''xyz'' ''/p/cardroot/abc_1/c/abc_2/c/abc_3''
     = ''/p/cardroot/abc_1/c/abc_2/c/xyz_3''"
  "replace_re ''abc'' ''xyz'' ''/p/cardroot/abc_1/c/abc_2'' = ''/p/cardroot/abc_1/c/xyz_2''"
  "replace_re ''abc'' ''xyz'' ''/p/cardroot/abc_1'' = ''/p/cardroot/xyz_1''"
  by code_simp+

lemma nested_run:
  "rename nested_project (\<lambda>source flags. None) ''xyz''
     = ([SetCardPrefix ''xyz'',
         Rename ''/p/cardroot/abc_1/c/abc_2/c/abc_3'' ''/p/cardroot/abc_1/c/abc_2/c/xyz_3'',
         Rename ''/p/cardroot/abc_1/c/abc_2'' ''/p/cardroot/abc_1/c/xyz_2'',
         Rename ''/p/cardroot/abc_1'' ''/p/cardroot/xyz_1'',
         Emit ''renamed'' ''/p''], None)"
  by code_simp

theorem rename_deepest_first_witness:
  "rename nested_project (\<lambda>source flags. None) ''xyz''
     = ([SetCardPrefix ''xyz'',
         Rename ''/p/cardroot/abc_1/c/abc_2/c/abc_3'' ''/p/cardroot/abc_1/c/abc_2/c/xyz_3'',
         Rename ''/p/cardroot/abc_1/c/abc_2'' ''/p/cardroot/abc_1/c/xyz_2'',
         Rename ''/p/cardroot/abc_1'' ''/p/cardroot/xyz_1'',
         Emit ''renamed'' ''/p''], None)
   \<and> subseq [Rename ''/p/cardroot/abc_1/c/abc_2/c/abc_3''
                (replace_re ''abc'' ''xyz'' ''/p/cardroot/abc_1/c/abc_2/c/abc_3''),
              Rename ''/p/cardroot/abc_1/c/abc_2''
                (replace_re ''abc'' ''xyz'' ''/p/cardroot/abc_1/c/abc_2''),
              Rename ''/p/cardroot/abc_1'' (replace_re ''abc'' ''xyz'' ''/p/cardroot/abc_1'')]
        (fst (rename nested_project (\<lambda>source flags. None) ''xyz''))
   \<and> \<not> passes_through ''/p/cardroot/abc_1/c/abc_2'' ''/p/cardroot/abc_1/c/abc_2/c/abc_3''"
proof -
  have re: "new_RegExp_prefix (\<lambda>source flags. None) (cardkeyPrefix nested_project)
              = Some (replace_re ''abc'')"
    by (simp add: new_RegExp_prefix_def nested_project_def literal_def syntax_character_def)
  have en: "enumerations nested_project
              = [[card_at ''abc_1'' ''/p/cardroot/abc_1'',
                  card_at ''abc_3'' ''/p/cardroot/abc_1/c/abc_2/c/abc_3'',
                  card_at ''abc_2'' ''/p/cardroot/abc_1/c/abc_2'']]"
    by (simp add: enumerations_def nested_project_def)
  have run: "rename nested_project (\<lambda>source flags. None) ''xyz''
               = (fst (rename nested_project (\<lambda>source flags. None) ''xyz''), None)"
    using nested_run by simp
  have mem: "[card_at ''abc_1'' ''/p/cardroot/abc_1'',
              card_at ''abc_3'' ''/p/cardroot/abc_1/c/abc_2/c/abc_3'',
              card_at ''abc_2'' ''/p/cardroot/abc_1/c/abc_2'']
               \<in> set (enumerations nested_project)"
    by (simp add: en)
  have split: "array_sort sortCards
                 [card_at ''abc_1'' ''/p/cardroot/abc_1'',
                  card_at ''abc_3'' ''/p/cardroot/abc_1/c/abc_2/c/abc_3'',
                  card_at ''abc_2'' ''/p/cardroot/abc_1/c/abc_2'']
               = [card_at ''abc_3'' ''/p/cardroot/abc_1/c/abc_2/c/abc_3'']
                 @ [card_at ''abc_2'' ''/p/cardroot/abc_1/c/abc_2'',
                    card_at ''abc_1'' ''/p/cardroot/abc_1'']
             \<and> card_at ''abc_3'' ''/p/cardroot/abc_1/c/abc_2/c/abc_3''
                 \<in> set [card_at ''abc_3'' ''/p/cardroot/abc_1/c/abc_2/c/abc_3'']
             \<and> card_at ''abc_2'' ''/p/cardroot/abc_1/c/abc_2''
                 \<in> set [card_at ''abc_2'' ''/p/cardroot/abc_1/c/abc_2'',
                        card_at ''abc_1'' ''/p/cardroot/abc_1'']"
    using nested_sorted by (simp del: array_sort.simps)
  have order: "concat (map (array_sort sortCards) (enumerations nested_project))
                 = [card_at ''abc_3'' ''/p/cardroot/abc_1/c/abc_2/c/abc_3'',
                    card_at ''abc_2'' ''/p/cardroot/abc_1/c/abc_2'',
                    card_at ''abc_1'' ''/p/cardroot/abc_1'']"
    unfolding en using nested_sorted by (simp del: array_sort.simps)
  note inst = rename_deepest_first[OF re, of "''xyz''"
      "fst (rename nested_project (\<lambda>source flags. None) ''xyz'')"
      "[card_at ''abc_1'' ''/p/cardroot/abc_1'',
        card_at ''abc_3'' ''/p/cardroot/abc_1/c/abc_2/c/abc_3'',
        card_at ''abc_2'' ''/p/cardroot/abc_1/c/abc_2'']"
      0
      "[card_at ''abc_3'' ''/p/cardroot/abc_1/c/abc_2/c/abc_3'']"
      "[card_at ''abc_2'' ''/p/cardroot/abc_1/c/abc_2'', card_at ''abc_1'' ''/p/cardroot/abc_1'']"
      "card_at ''abc_3'' ''/p/cardroot/abc_1/c/abc_2/c/abc_3''"
      "card_at ''abc_2'' ''/p/cardroot/abc_1/c/abc_2''"]
  from inst run
  have "subseq (map (directory_rename (replace_re ''abc'') ''xyz'')
                  (concat (map (array_sort sortCards) (enumerations nested_project))))
          (fst (rename nested_project (\<lambda>source flags. None) ''xyz''))"
    by blast
  then have second:
    "subseq [Rename ''/p/cardroot/abc_1/c/abc_2/c/abc_3''
               (replace_re ''abc'' ''xyz'' ''/p/cardroot/abc_1/c/abc_2/c/abc_3''),
             Rename ''/p/cardroot/abc_1/c/abc_2''
               (replace_re ''abc'' ''xyz'' ''/p/cardroot/abc_1/c/abc_2''),
             Rename ''/p/cardroot/abc_1'' (replace_re ''abc'' ''xyz'' ''/p/cardroot/abc_1'')]
       (fst (rename nested_project (\<lambda>source flags. None) ''xyz''))"
    by (simp only: order list.map directory_rename_def path_card_at)
  from inst mem split
  have "\<not> passes_through (path (card_at ''abc_2'' ''/p/cardroot/abc_1/c/abc_2''))
            (path (card_at ''abc_3'' ''/p/cardroot/abc_1/c/abc_2/c/abc_3''))"
    by blast
  then have third:
    "\<not> passes_through ''/p/cardroot/abc_1/c/abc_2'' ''/p/cardroot/abc_1/c/abc_2/c/abc_3''"
    by (simp add: path_card_at)
  from nested_run second third show ?thesis by (intro conjI)
qed

text \<open>
  Claim C3 as stated fails: the order is not one of strictly decreasing path length. Two
  siblings have paths of the same length; the run renames one after the other, in the
  order of the enumeration.
\<close>

definition sibling_project :: project where
  "sibling_project =
     \<lparr>basePath = ''/p'', cardrootFolder = ''/p/cardroot'', cardkeyPrefix = ''abc'',
      cards = (\<lambda>p d. if p = ''/p/cardroot'' \<and> d = rename_details then
                 [card_at ''abc_1'' ''/p/cardroot/abc_1'', card_at ''abc_2'' ''/p/cardroot/abc_2'']
               else []),
      templates = [], template_cards = (\<lambda>t p d. []),
      isTemplateCard = (\<lambda>c. False)\<rparr>"

theorem siblings_not_strictly_ordered:
  "rename sibling_project (\<lambda>source flags. None) ''xyz''
     = ([SetCardPrefix ''xyz'',
         Rename ''/p/cardroot/abc_1'' ''/p/cardroot/xyz_1'',
         Rename ''/p/cardroot/abc_2'' ''/p/cardroot/xyz_2'',
         Emit ''renamed'' ''/p''], None)
   \<and> js_length ''/p/cardroot/abc_1'' = js_length ''/p/cardroot/abc_2''
   \<and> \<not> sorted_wrt strictly_deeper_first
         (array_sort sortCards (cards sibling_project (cardrootFolder sibling_project) rename_details))"
  by code_simp

subsection \<open>What a rename writes\<close>

text \<open>
  The words of the specification: the content after the references to the attachments
  \<open>as\<close> have been rewritten, one attachment after the other.
\<close>

definition rewritten ::
  "regexp_engine \<Rightarrow> regexp \<Rightarrow> string \<Rightarrow> attachment list \<Rightarrow> string \<Rightarrow> string" where
  "rewritten new_RegExp re to as s =
     foldl (\<lambda>s a. case new_RegExp (image_reference (fileName a)) ''g'' of
                     Some contentRe \<Rightarrow> contentRe (image_reference (re to (fileName a))) s
                   | None \<Rightarrow> s) s as"


lemma rewritten_Cons:
  "new_RegExp (image_reference (fileName a)) ''g'' = Some contentRe \<Longrightarrow>
   rewritten new_RegExp re to (a # as) s
     = rewritten new_RegExp re to as (contentRe (image_reference (re to (fileName a))) s)"
  by (simp add: rewritten_def)

























section \<open>The file system and the documents of the create engine\<close>

text \<open>
  A JSON document, as the create engine builds it and hands it to the validator and the
  formatter.
\<close>

datatype json =
    JNull
  | JBool bool
  | JNumber int
  | JString string
  | JArray "json list"
  | JObject "(string \<times> json) list"

text \<open>
  The part of the file system \<^verbatim>\<open>create.ts\<close> works on: a path holds a file with its
  content, a directory, or nothing. A failed operation of the engine is the error
  together with the file system as the failure leaves it.
\<close>

datatype node = File string | Dir

type_synonym fs = "string \<Rightarrow> node option"

type_synonym 'a result = "(error \<times> fs) + 'a"

text \<open>
  The calls of \<^verbatim>\<open>node:fs/promises\<close> that \<^verbatim>\<open>create.ts\<close> makes, as POSIX defines
  them. \<open>dirname\<close> is the path up to the last separator; the empty path stands for a
  directory that always exists (the root, or the working directory of a relative path).
\<close>

definition dirname :: "string \<Rightarrow> string" where
  "dirname p = butlast (rev (dropWhile (\<lambda>c. c \<noteq> CHR ''/'') (rev p)))"

definition parent_exists :: "fs \<Rightarrow> string \<Rightarrow> bool" where
  "parent_exists fs p \<longleftrightarrow> dirname p = [] \<or> fs (dirname p) = Some Dir"

text \<open>
  \<^verbatim>\<open>writeFile(path, data, { flag })\<close>: the default flag \<^verbatim>\<open>w\<close> creates or
  truncates the file, \<^verbatim>\<open>wx\<close> fails with \<^verbatim>\<open>EEXIST\<close> when the path exists.
\<close>

datatype flag = W | WX

definition writeFile :: "fs \<Rightarrow> string \<Rightarrow> string \<Rightarrow> flag \<Rightarrow> fs result" where
  "writeFile fs p data flag =
     (if flag = WX \<and> fs p \<noteq> None then Inl (SystemError ''EEXIST'' p, fs)
      else if fs p = Some Dir then Inl (SystemError ''EISDIR'' p, fs)
      else if \<not> parent_exists fs p then Inl (SystemError ''ENOENT'' p, fs)
      else Inr (fs(p \<mapsto> File data)))"


text \<open>
  \<^verbatim>\<open>mkdir(path, { recursive: true })\<close> creates the directory and every missing
  directory above it and accepts directories that exist; \<^verbatim>\<open>mkdir(path)\<close> creates one
  directory under an existing parent.
\<close>

definition directories_of :: "string \<Rightarrow> string list" where
  "directories_of p =
     filter (\<lambda>q. q \<noteq> [] \<and> (q = p \<or> p ! length q = CHR ''/'')) (prefixes p)"

definition is_file :: "node option \<Rightarrow> bool" where
  "is_file n = (case n of Some (File _) \<Rightarrow> True | _ \<Rightarrow> False)"

definition mkdir_recursive :: "fs \<Rightarrow> string \<Rightarrow> fs result" where
  "mkdir_recursive fs p =
     (if list_ex (\<lambda>q. is_file (fs q)) (directories_of p) then Inl (SystemError ''EEXIST'' p, fs)
      else Inr (\<lambda>q. if q \<in> set (directories_of p) \<and> fs q = None then Some Dir else fs q))"

definition mkdir :: "fs \<Rightarrow> string \<Rightarrow> fs result" where
  "mkdir fs p =
     (if fs p \<noteq> None then Inl (SystemError ''EEXIST'' p, fs)
      else if \<not> parent_exists fs p then Inl (SystemError ''ENOENT'' p, fs)
      else Inr (fs(p \<mapsto> Dir)))"

section \<open>The create engine\<close>

text \<open>
  \<^verbatim>\<open>Create.supportedFieldTypes\<close>, lines 687 to 703: the pattern of the
  \<^verbatim>\<open>dataType\<close> property of the field type schema, without the anchors
  \<^verbatim>\<open>^\<close> and \<^verbatim>\<open>$\<close>, split at \<^verbatim>\<open>|\<close>. The schema document
  \<^verbatim>\<open>field-type-schema.json\<close> is not among the sources: its pattern is a parameter.
  \<open>split_on\<close> is \<^verbatim>\<open>String.prototype.split\<close> for a separator of one character.
\<close>

fun split_on :: "char \<Rightarrow> string \<Rightarrow> string list" where
  "split_on d [] = [[]]"
| "split_on d (c # cs) =
     (if c = d then [] # split_on d cs
      else (case split_on d cs of [] \<Rightarrow> [[c]] | w # ws \<Rightarrow> (c # w) # ws))"

definition supportedFieldTypes :: "string \<Rightarrow> string list" where
  "supportedFieldTypes pattern =
     split_on (CHR ''|'') (filter (\<lambda>c. c \<noteq> CHR ''$'' \<and> c \<noteq> CHR ''^'') pattern)"

text \<open>
  \<^verbatim>\<open>path.basename\<close>, \<^verbatim>\<open>String.prototype.includes\<close>, \<^verbatim>\<open>path.join\<close> of several
  segments, and the conversion of an array of strings to a string in a template literal
  (the elements separated by commas).
\<close>

definition basename :: "string \<Rightarrow> string" where
  "basename p = rev (takeWhile (\<lambda>c. c \<noteq> CHR ''/'') (rev p))"

definition str_includes :: "string \<Rightarrow> string \<Rightarrow> bool" where
  "str_includes s sub \<longleftrightarrow> occurrences sub s \<noteq> []"

fun joins :: "string list \<Rightarrow> string" where
  "joins [] = ''.''"
| "joins (x # xs) = foldl join x xs"

fun array_toString :: "string list \<Rightarrow> string" where
  "array_toString [] = []"
| "array_toString [x] = x"
| "array_toString (x # y # ys) = x @ '','' @ array_toString (y # ys)"

text \<open>
  What \<^verbatim>\<open>create.ts\<close> calls and the sources do not hold, as parameters:
  \<^verbatim>\<open>Validate.validateJson(content, schemaId)\<close> with its list of violations,
  \<^verbatim>\<open>formatJson\<close>, \<^verbatim>\<open>JSON.stringify\<close>, \<^verbatim>\<open>errorFunction\<close>, the names of the
  resources of imported modules by kind, the \<^verbatim>\<open>dataType\<close> pattern of the field type
  schema, and of the class \<^verbatim>\<open>Project\<close> the methods \<^verbatim>\<open>findSpecificCard\<close>,
  \<^verbatim>\<open>pathToCard\<close>, \<^verbatim>\<open>updateCardMetadata\<close> and \<^verbatim>\<open>cardAttachmentFolder\<close>, each
  reading the file system of the project at the given path.
\<close>

record env =
  validateJson :: "json \<Rightarrow> string \<Rightarrow> string list"
  formatJson :: "json \<Rightarrow> string"
  JSON_stringify :: "json \<Rightarrow> string"
  errorFunction :: "error \<Rightarrow> string"
  imported :: "string \<Rightarrow> string set"
  dataType_pattern :: string
  findSpecificCard :: "fs \<Rightarrow> string \<Rightarrow> string \<Rightarrow> fetchCardDetails \<Rightarrow> card option"
  pathToCard :: "fs \<Rightarrow> string \<Rightarrow> string \<Rightarrow> string option"
  updateCardMetadata :: "fs \<Rightarrow> string \<Rightarrow> string \<Rightarrow> string \<Rightarrow> link list \<Rightarrow> fs result"
  cardAttachmentFolder :: "fs \<Rightarrow> string \<Rightarrow> string \<Rightarrow> string option"

text \<open>
  Modelled from the spec: \<^verbatim>\<open>Project.isCreated\<close> (\<^verbatim>\<open>containers/project.ts\<close> is not
  among the sources) is true iff the fixed top-level structure and the required
  configuration file exist.
\<close>

definition isCreated :: "fs \<Rightarrow> string \<Rightarrow> bool" where
  "isCreated fs p \<longleftrightarrow>
     fs (join p ''.cards'') = Some Dir \<and> fs (join p ''cardroot'') = Some Dir \<and>
     is_file (fs (joins [p, ''.cards'', ''local'', ''cardsconfig.json'']))"

text \<open>
  Modelled from the spec: the constructor \<^verbatim>\<open>new Project(path)\<close>; loading a project
  that is not created fails with a \<^verbatim>\<open>NotAProjectError\<close>.
\<close>

definition new_Project :: "fs \<Rightarrow> string \<Rightarrow> unit result" where
  "new_Project fs p = (if isCreated fs p then Inr () else Inl (NotAProjectError p, fs))"

text \<open>
  Modelled from the spec: the read accessors \<^verbatim>\<open>Project.fieldtypes()\<close>,
  \<^verbatim>\<open>Project.linkTypes()\<close> and \<^verbatim>\<open>Project.workflows()\<close> give the names of a resource
  collection: the entries of the collection's folder under \<^verbatim>\<open>.cards/local\<close>, and the
  resources of imported modules.
\<close>

definition resource_folder :: "string \<Rightarrow> string \<Rightarrow> string" where
  "resource_folder projectPath kind = joins [projectPath, ''.cards'', ''local'', kind]"

definition resources :: "env \<Rightarrow> fs \<Rightarrow> string \<Rightarrow> string \<Rightarrow> string set" where
  "resources env fs projectPath kind =
     {n. n \<noteq> [] \<and> CHR ''/'' \<notin> set n \<and> fs (join (resource_folder projectPath kind) n) \<noteq> None}
     \<union> imported env kind"

text \<open>
  \<^verbatim>\<open>Create.fieldTypeExists\<close>, \<^verbatim>\<open>linkTypeExists\<close> and \<^verbatim>\<open>workflowExists\<close>, lines 113
  to 148, differ in the accessor only: an item of the collection is named as the resource,
  with or without the extension \<^verbatim>\<open>.json\<close>.
\<close>

definition resourceExists :: "env \<Rightarrow> fs \<Rightarrow> string \<Rightarrow> string \<Rightarrow> string \<Rightarrow> bool result" where
  "resourceExists env fs kind projectPath name =
     (case new_Project fs projectPath of
        Inl e \<Rightarrow> Inl e
      | Inr _ \<Rightarrow>
          Inr (\<exists>item\<in>resources env fs projectPath kind. item = name @ ''.json'' \<or> item = name))"

definition fieldTypeExists :: "env \<Rightarrow> fs \<Rightarrow> string \<Rightarrow> string \<Rightarrow> bool result" where
  "fieldTypeExists env fs projectPath fieldTypeName =
     resourceExists env fs ''fieldtypes'' projectPath fieldTypeName"

definition linkTypeExists :: "env \<Rightarrow> fs \<Rightarrow> string \<Rightarrow> string \<Rightarrow> bool result" where
  "linkTypeExists env fs projectPath linkTypeName =
     resourceExists env fs ''linktypes'' projectPath linkTypeName"

definition workflowExists :: "env \<Rightarrow> fs \<Rightarrow> string \<Rightarrow> string \<Rightarrow> bool result" where
  "workflowExists env fs projectPath workflowName =
     resourceExists env fs ''workflows'' projectPath workflowName"

text \<open>\<^verbatim>\<open>Create.createCardtype\<close>, lines 329 to 352.\<close>

definition createCardtype :: "env \<Rightarrow> fs \<Rightarrow> string \<Rightarrow> string \<Rightarrow> string \<Rightarrow> fs result" where
  "createCardtype env fs projectPath name workflow =
     (case workflowExists env fs projectPath workflow of
        Inl e \<Rightarrow> Inl e
      | Inr exists \<Rightarrow>
          if \<not> exists then
            Inl (Error (''Input validation error: workflow '' @ [CHR 0x27] @ workflow @ [CHR 0x27]
                        @ '' does not exist in the project.''), fs)
          else
            (let content = JObject [(''name'', JString name), (''workflow'', JString workflow)];
                 destinationFolder =
                   joins [projectPath, ''.cards'', ''local'', ''cardtypes'', name @ ''.json'']
             in writeFile fs destinationFolder (formatJson env content) WX))"

text \<open>\<^verbatim>\<open>Create.createFieldType\<close>, lines 360 to 389.\<close>

definition createFieldType :: "env \<Rightarrow> fs \<Rightarrow> string \<Rightarrow> string \<Rightarrow> string \<Rightarrow> fs result" where
  "createFieldType env fs projectPath fieldTypeName dataType =
     (let content = JObject [(''name'', JString fieldTypeName), (''dataType'', JString dataType)]
      in case fieldTypeExists env fs projectPath fieldTypeName of
           Inl e \<Rightarrow> Inl e
         | Inr exists \<Rightarrow>
             if exists then
               Inl (Error (''Field type with name '' @ [CHR 0x27] @ fieldTypeName @ [CHR 0x27]
                           @ '' already exists in the project''), fs)
             else if dataType \<notin> set (supportedFieldTypes (dataType_pattern env)) then
               Inl (Error (''Field type '' @ [CHR 0x27] @ dataType @ [CHR 0x27]
                           @ '' not supported. Supported types ''
                           @ array_toString (supportedFieldTypes (dataType_pattern env))), fs)
             else
               (let destinationFolder =
                      joins [projectPath, ''.cards'', ''local'', ''fieldtypes'',
                             fieldTypeName @ ''.json'']
                in writeFile fs destinationFolder (formatJson env content) WX))"

text \<open>\<^verbatim>\<open>Create.getLinkTypeContent\<close> and \<^verbatim>\<open>Create.createLinkType\<close>, lines 397 to 427 and 672 to 681.\<close>

definition getLinkTypeContent :: "string \<Rightarrow> json" where
  "getLinkTypeContent linkTypeName =
     JObject [(''name'', JString linkTypeName),
              (''outboundDisplayName'', JString linkTypeName),
              (''inboundDisplayName'', JString linkTypeName),
              (''sourceCardTypes'', JArray []),
              (''destinationCardTypes'', JArray []),
              (''enableLinkDescription'', JBool False)]"

definition createLinkType :: "env \<Rightarrow> fs \<Rightarrow> string \<Rightarrow> string \<Rightarrow> fs result" where
  "createLinkType env fs projectPath linkTypeName =
     (case linkTypeExists env fs projectPath linkTypeName of
        Inl e \<Rightarrow> Inl e
      | Inr exists \<Rightarrow>
          if exists then
            Inl (Error (''Link type with name '' @ [CHR 0x27] @ linkTypeName @ [CHR 0x27]
                        @ '' already exists in the project''), fs)
          else
            (let linkTypeContent = getLinkTypeContent linkTypeName;
                 validJson = validateJson env linkTypeContent ''link-type-schema''
             in if length validJson \<noteq> 0 then
                  Inl (Error (''Invalid linktype JSON: '' @ array_toString validJson), fs)
                else
                  (let destinationFolder =
                         joins [projectPath, ''.cards'', ''local'', ''linktypes'',
                                linkTypeName @ ''.json'']
                   in writeFile fs destinationFolder (JSON_stringify env linkTypeContent) WX)))"

text \<open>
  \<^verbatim>\<open>Create.createWorkflow\<close>, lines 605 to 621. The workflow is a value of the type
  \<^verbatim>\<open>workflowMetadata\<close>: a name, states and transitions.
\<close>

record workflowMetadata =
  workflow_name :: string
  states :: "json list"
  transitions :: "json list"

definition workflow_json :: "workflowMetadata \<Rightarrow> json" where
  "workflow_json w =
     JObject [(''name'', JString (workflow_name w)), (''states'', JArray (states w)),
              (''transitions'', JArray (transitions w))]"

definition createWorkflow :: "env \<Rightarrow> fs \<Rightarrow> string \<Rightarrow> workflowMetadata \<Rightarrow> fs result" where
  "createWorkflow env fs projectPath workflow =
     (let schemaId = ''workflow-schema'';
          validJson = validateJson env (workflow_json workflow) schemaId
      in if length validJson \<noteq> 0 then
           Inl (Error (''Invalid workflow JSON: '' @ array_toString validJson), fs)
         else
           (let content = workflow_json workflow;
                destinationFile =
                  joins [projectPath, ''.cards'', ''local'', ''workflows'',
                         workflow_name workflow @ ''.json'']
            in writeFile fs destinationFile (formatJson env content) WX))"

text \<open>
  \<^verbatim>\<open>Create.createAttachment\<close>, lines 228 to 263. A folder that is undefined or the empty
  string is falsy. Without a buffer the attachment is copied from the path
  \<^verbatim>\<open>attachment\<close>, with a buffer the buffer is written; an error of the file system is
  wrapped by \<^verbatim>\<open>errorFunction\<close>.
\<close>

definition falsy :: "string option \<Rightarrow> bool" where
  "falsy v = (case v of None \<Rightarrow> True | Some s \<Rightarrow> s = [])"


subsection \<open>Names of resources\<close>

lemma dirname_join: "CHR ''/'' \<notin> set n \<Longrightarrow> dirname (join d n) = d"
proof -
  assume "CHR ''/'' \<notin> set n"
  then have "dropWhile (\<lambda>c. c \<noteq> CHR ''/'') (rev n @ CHR ''/'' # rev d) = CHR ''/'' # rev d"
    by (subst dropWhile_append2) auto
  then show ?thesis
    by (simp add: dirname_def join_def)
qed

lemma resource_destination:
  "joins [projectPath, ''.cards'', ''local'', kind, name] = join (resource_folder projectPath kind) name"
  by (simp add: resource_folder_def)

lemma in_resources:
  "n \<noteq> [] \<Longrightarrow> CHR ''/'' \<notin> set n \<Longrightarrow> fs (join (resource_folder p kind) n) \<noteq> None
     \<Longrightarrow> n \<in> resources env fs p kind"
  by (simp add: resources_def)

lemma not_in_resources:
  "n \<notin> resources env fs p kind \<Longrightarrow> n \<noteq> [] \<Longrightarrow> CHR ''/'' \<notin> set n
     \<Longrightarrow> fs (join (resource_folder p kind) n) = None"
  by (auto simp: resources_def)

lemma isCreated_write_resource:
  "isCreated (fs(join (resource_folder p kind) n \<mapsto> v)) p = isCreated fs p"
  if "kind \<in> {''fieldtypes'', ''linktypes'', ''workflows'', ''cardtypes''}"
  using that by (auto simp: isCreated_def resource_folder_def join_def)

lemma writeFile_WX_exists: "fs p \<noteq> None \<Longrightarrow> writeFile fs p d WX = Inl (SystemError ''EEXIST'' p, fs)"
  by (simp add: writeFile_def)

lemma writeFile_WX_Inr:
  "writeFile fs p d WX = Inr fs' \<Longrightarrow> fs p = None \<and> fs' = fs(p \<mapsto> File d)"
  by (auto simp: writeFile_def split: if_splits)

lemma writeFile_Inl: "writeFile fs p d f = Inl (e, fs') \<Longrightarrow> fs' = fs"
  by (auto simp: writeFile_def split: if_splits)

lemma resourceExists_Inr: "resourceExists env fs kind p n = Inr b \<Longrightarrow> isCreated fs p"
  by (auto simp: resourceExists_def new_Project_def split: if_splits)

lemma resourceExists_after_write:
  assumes "CHR ''/'' \<notin> set n" and "isCreated fs p"
    and "kind \<in> {''fieldtypes'', ''linktypes'', ''workflows'', ''cardtypes''}"
  shows "resourceExists env (fs(join (resource_folder p kind) (n @ ''.json'') \<mapsto> v)) kind p n
           = Inr True"
proof -
  let ?fs = "fs(join (resource_folder p kind) (n @ ''.json'') \<mapsto> v)"
  have "isCreated ?fs p" using assms(2,3) by (simp add: isCreated_write_resource)
  moreover have "n @ ''.json'' \<in> resources env ?fs p kind"
    using assms(1) by (intro in_resources) auto
  ultimately show ?thesis
    by (auto simp: resourceExists_def new_Project_def)
qed

lemma resourceExists_False_free:
  assumes "resourceExists env fs kind p n = Inr False" and "CHR ''/'' \<notin> set n"
  shows "fs (join (resource_folder p kind) (n @ ''.json'')) = None"
proof -
  from assms(1) have "n @ ''.json'' \<notin> resources env fs p kind"
    by (auto simp: resourceExists_def new_Project_def split: if_splits)
  then show ?thesis using assms(2) by (intro not_in_resources) auto
qed

lemma createFieldType_exists:
  "fieldTypeExists env fs p n = Inr True \<Longrightarrow>
   createFieldType env fs p n d
     = Inl (Error (''Field type with name '' @ [CHR 0x27] @ n @ [CHR 0x27]
                   @ '' already exists in the project''), fs)"
  by (simp add: createFieldType_def)

lemma createLinkType_exists:
  "linkTypeExists env fs p n = Inr True \<Longrightarrow>
   createLinkType env fs p n
     = Inl (Error (''Link type with name '' @ [CHR 0x27] @ n @ [CHR 0x27]
                   @ '' already exists in the project''), fs)"
  by (simp add: createLinkType_def)

lemma createFieldType_Inr:
  assumes "createFieldType env fs p n d = Inr fs'"
  shows "isCreated fs p \<and> fs' = fs(join (resource_folder p ''fieldtypes'') (n @ ''.json'')
            \<mapsto> File (formatJson env (JObject [(''name'', JString n), (''dataType'', JString d)])))"
  using assms
  by (auto simp: createFieldType_def fieldTypeExists_def resource_folder_def Let_def
      split: sum.splits if_splits dest: resourceExists_Inr writeFile_WX_Inr)

lemma createLinkType_Inr:
  assumes "createLinkType env fs p n = Inr fs'"
  shows "isCreated fs p \<and> fs' = fs(join (resource_folder p ''linktypes'') (n @ ''.json'')
            \<mapsto> File (JSON_stringify env (getLinkTypeContent n)))"
  using assms
  by (auto simp: createLinkType_def linkTypeExists_def resource_folder_def Let_def
      split: sum.splits if_splits dest: resourceExists_Inr writeFile_WX_Inr)

lemma createCardtype_Inr:
  assumes "createCardtype env fs p n w = Inr fs'"
  shows "fs' = fs(join (resource_folder p ''cardtypes'') (n @ ''.json'')
            \<mapsto> File (formatJson env (JObject [(''name'', JString n), (''workflow'', JString w)])))"
  using assms
  by (auto simp: createCardtype_def resource_folder_def Let_def
      split: sum.splits if_splits dest: writeFile_WX_Inr)

lemma createWorkflow_Inr:
  assumes "createWorkflow env fs p wfm = Inr fs'"
  shows "fs' = fs(join (resource_folder p ''workflows'') (workflow_name wfm @ ''.json'')
            \<mapsto> File (formatJson env (workflow_json wfm)))"
  using assms
  by (auto simp: createWorkflow_def resource_folder_def Let_def
      split: sum.splits if_splits dest: writeFile_WX_Inr)

lemma createCardtype_target_exists:
  assumes "fs (join (resource_folder p ''cardtypes'') (n @ ''.json'')) \<noteq> None"
  shows "\<exists>e. createCardtype env fs p n w = Inl (e, fs)"
  using assms
  by (auto simp: createCardtype_def workflowExists_def resourceExists_def new_Project_def
      resource_folder_def Let_def writeFile_WX_exists)



lemma createWorkflow_target_exists:
  assumes "fs (join (resource_folder p ''workflows'') (workflow_name wfm @ ''.json'')) \<noteq> None"
  shows "\<exists>e. createWorkflow env fs p wfm = Inl (e, fs)"
  using assms
  by (auto simp: createWorkflow_def resource_folder_def Let_def writeFile_WX_exists)

text \<open>A project at \<^verbatim>\<open>/p\<close> with one workflow and one card, and collaborators that accept everything.\<close>

definition demo_env :: env where
  "demo_env =
     \<lparr>validateJson = (\<lambda>doc schema. []),
      formatJson = (\<lambda>doc. ''{}''),
      JSON_stringify = (\<lambda>doc. ''{}''),
      errorFunction = (\<lambda>e. ''error''),
      imported = (\<lambda>kind. {}),
      dataType_pattern = ''^shortText$|^longText$|^number$'',
      findSpecificCard = (\<lambda>fs p k d. None),
      pathToCard = (\<lambda>fs p k. None),
      updateCardMetadata = (\<lambda>fs p k f v. Inr fs),
      cardAttachmentFolder = (\<lambda>fs p k. Some ''/p/cardroot/abc_1/a'')\<rparr>"

definition demo_fs :: fs where
  "demo_fs =
     map_of [(''/p'', Dir), (''/p/.cards'', Dir), (''/p/.cards/local'', Dir),
             (''/p/.cards/local/cardsconfig.json'', File ''{}''),
             (''/p/.cards/local/cardtypes'', Dir), (''/p/.cards/local/fieldtypes'', Dir),
             (''/p/.cards/local/linktypes'', Dir), (''/p/.cards/local/workflows'', Dir),
             (''/p/.cards/local/workflows/simple.json'', File ''{}''),
             (''/p/cardroot'', Dir), (''/p/cardroot/abc_1'', Dir),
             (''/p/cardroot/abc_1/a'', Dir), (''/p/cardroot/abc_1/a/pic.png'', File ''old'')]"

lemma createFieldType_twice:
  assumes "CHR ''/'' \<notin> set n" and "createFieldType env fs p n d = Inr fs1"
  shows "createFieldType env fs1 p n d'
           = Inl (Error (''Field type with name '' @ [CHR 0x27] @ n @ [CHR 0x27]
                         @ '' already exists in the project''), fs1)"
proof -
  from createFieldType_Inr[OF assms(2)]
  have "fieldTypeExists env fs1 p n = Inr True"
    using assms(1) by (simp add: fieldTypeExists_def resourceExists_after_write)
  then show ?thesis by (rule createFieldType_exists)
qed

lemma createLinkType_twice:
  assumes "CHR ''/'' \<notin> set n" and "createLinkType env fs p n = Inr fs2"
  shows "createLinkType env fs2 p n
           = Inl (Error (''Link type with name '' @ [CHR 0x27] @ n @ [CHR 0x27]
                         @ '' already exists in the project''), fs2)"
proof -
  from createLinkType_Inr[OF assms(2)]
  have "linkTypeExists env fs2 p n = Inr True"
    using assms(1) by (simp add: linkTypeExists_def resourceExists_after_write)
  then show ?thesis by (rule createLinkType_exists)
qed

lemma createCardtype_twice:
  assumes "createCardtype env fs p n w = Inr fs3"
  shows "(\<exists>e. createCardtype env fs3 p n w' = Inl (e, fs3)) \<and>
         (workflowExists env fs3 p w' = Inr True \<longrightarrow>
            createCardtype env fs3 p n w'
              = Inl (SystemError ''EEXIST''
                       (joins [p, ''.cards'', ''local'', ''cardtypes'', n @ ''.json'']), fs3))"
proof -
  from createCardtype_Inr[OF assms]
  have ex: "fs3 (join (resource_folder p ''cardtypes'') (n @ ''.json'')) \<noteq> None" by simp
  then have "fs3 (joins [p, ''.cards'', ''local'', ''cardtypes'', n @ ''.json'']) \<noteq> None"
    by (simp add: resource_folder_def)
  then have "workflowExists env fs3 p w' = Inr True \<longrightarrow>
            createCardtype env fs3 p n w'
              = Inl (SystemError ''EEXIST''
                       (joins [p, ''.cards'', ''local'', ''cardtypes'', n @ ''.json'']), fs3)"
    by (simp add: createCardtype_def Let_def writeFile_WX_exists del: joins.simps)
  with createCardtype_target_exists[of fs3 p n env w', OF ex] show ?thesis by blast
qed

lemma createWorkflow_twice:
  assumes "createWorkflow env fs p wfm = Inr fs4" and "workflow_name wfm' = workflow_name wfm"
  shows "(\<exists>e. createWorkflow env fs4 p wfm' = Inl (e, fs4)) \<and>
         (validateJson env (workflow_json wfm') ''workflow-schema'' = [] \<longrightarrow>
            createWorkflow env fs4 p wfm'
              = Inl (SystemError ''EEXIST''
                       (joins [p, ''.cards'', ''local'', ''workflows'',
                               workflow_name wfm' @ ''.json'']), fs4))"
proof -
  from createWorkflow_Inr[OF assms(1)]
  have ex: "fs4 (join (resource_folder p ''workflows'') (workflow_name wfm' @ ''.json'')) \<noteq> None"
    using assms(2) by simp
  then have "fs4 (joins [p, ''.cards'', ''local'', ''workflows'', workflow_name wfm' @ ''.json''])
               \<noteq> None"
    by (simp add: resource_folder_def)
  then have "validateJson env (workflow_json wfm') ''workflow-schema'' = [] \<longrightarrow>
            createWorkflow env fs4 p wfm'
              = Inl (SystemError ''EEXIST''
                       (joins [p, ''.cards'', ''local'', ''workflows'',
                               workflow_name wfm' @ ''.json'']), fs4)"
    by (simp add: createWorkflow_def Let_def writeFile_WX_exists del: joins.simps)
  with createWorkflow_target_exists[of fs4 p wfm' env, OF ex] show ?thesis by blast
qed

text \<open>
  Claim C2, as the code has it. \<open>createFieldType\<close> and \<open>createLinkType\<close> check the name
  first: when the collection holds the name, they fail with the error
  \<^verbatim>\<open>... already exists in the project\<close> and write nothing, and after one of them has
  succeeded for a name without a path separator, a second call for that name fails this
  way. \<open>createCardtype\<close> and \<open>createWorkflow\<close> have no check of the name: after one of
  them has succeeded, a second call for the same name fails and leaves the file system as
  it is, and when it gets as far as the write (the workflow of the card type exists, the
  workflow document is valid) the error is the \<^verbatim>\<open>EEXIST\<close> of the exclusive write.
\<close>

theorem create_same_name_twice:
  "(fieldTypeExists env fs p n = Inr True \<longrightarrow>
      createFieldType env fs p n d
        = Inl (Error (''Field type with name '' @ [CHR 0x27] @ n @ [CHR 0x27]
                      @ '' already exists in the project''), fs))
 \<and> (linkTypeExists env fs p n = Inr True \<longrightarrow>
      createLinkType env fs p n
        = Inl (Error (''Link type with name '' @ [CHR 0x27] @ n @ [CHR 0x27]
                      @ '' already exists in the project''), fs))
 \<and> (CHR ''/'' \<notin> set n \<and> createFieldType env fs p n d = Inr fs1 \<longrightarrow>
      createFieldType env fs1 p n d'
        = Inl (Error (''Field type with name '' @ [CHR 0x27] @ n @ [CHR 0x27]
                      @ '' already exists in the project''), fs1))
 \<and> (CHR ''/'' \<notin> set n \<and> createLinkType env fs p n = Inr fs2 \<longrightarrow>
      createLinkType env fs2 p n
        = Inl (Error (''Link type with name '' @ [CHR 0x27] @ n @ [CHR 0x27]
                      @ '' already exists in the project''), fs2))
 \<and> (createCardtype env fs p n w = Inr fs3 \<longrightarrow>
      (\<exists>e. createCardtype env fs3 p n w' = Inl (e, fs3)) \<and>
      (workflowExists env fs3 p w' = Inr True \<longrightarrow>
         createCardtype env fs3 p n w'
           = Inl (SystemError ''EEXIST''
                    (joins [p, ''.cards'', ''local'', ''cardtypes'', n @ ''.json'']), fs3)))
 \<and> (createWorkflow env fs p wfm = Inr fs4 \<and> workflow_name wfm' = workflow_name wfm \<longrightarrow>
      (\<exists>e. createWorkflow env fs4 p wfm' = Inl (e, fs4)) \<and>
      (validateJson env (workflow_json wfm') ''workflow-schema'' = [] \<longrightarrow>
         createWorkflow env fs4 p wfm'
           = Inl (SystemError ''EEXIST''
                    (joins [p, ''.cards'', ''local'', ''workflows'',
                            workflow_name wfm' @ ''.json'']), fs4)))"
proof (intro conjI impI)
  assume "fieldTypeExists env fs p n = Inr True"
  then show "createFieldType env fs p n d
        = Inl (Error (''Field type with name '' @ [CHR 0x27] @ n @ [CHR 0x27]
                      @ '' already exists in the project''), fs)"
    by (rule createFieldType_exists)
next
  assume "linkTypeExists env fs p n = Inr True"
  then show "createLinkType env fs p n
        = Inl (Error (''Link type with name '' @ [CHR 0x27] @ n @ [CHR 0x27]
                      @ '' already exists in the project''), fs)"
    by (rule createLinkType_exists)
next
  assume "CHR ''/'' \<notin> set n \<and> createFieldType env fs p n d = Inr fs1"
  then show "createFieldType env fs1 p n d'
        = Inl (Error (''Field type with name '' @ [CHR 0x27] @ n @ [CHR 0x27]
                      @ '' already exists in the project''), fs1)"
    using createFieldType_twice by blast
next
  assume "CHR ''/'' \<notin> set n \<and> createLinkType env fs p n = Inr fs2"
  then show "createLinkType env fs2 p n
        = Inl (Error (''Link type with name '' @ [CHR 0x27] @ n @ [CHR 0x27]
                      @ '' already exists in the project''), fs2)"
    using createLinkType_twice by blast
next
  assume a: "createCardtype env fs p n w = Inr fs3"
  show "\<exists>e. createCardtype env fs3 p n w' = Inl (e, fs3)"
    using createCardtype_twice[OF a] by blast
  assume "workflowExists env fs3 p w' = Inr True"
  then show "createCardtype env fs3 p n w'
           = Inl (SystemError ''EEXIST''
                    (joins [p, ''.cards'', ''local'', ''cardtypes'', n @ ''.json'']), fs3)"
    using createCardtype_twice[OF a] by blast
next
  assume a: "createWorkflow env fs p wfm = Inr fs4 \<and> workflow_name wfm' = workflow_name wfm"
  show "\<exists>e. createWorkflow env fs4 p wfm' = Inl (e, fs4)"
    using createWorkflow_twice a by blast
  assume "validateJson env (workflow_json wfm') ''workflow-schema'' = []"
  then show "createWorkflow env fs4 p wfm'
           = Inl (SystemError ''EEXIST''
                    (joins [p, ''.cards'', ''local'', ''workflows'',
                            workflow_name wfm' @ ''.json'']), fs4)"
    using createWorkflow_twice a by blast
qed

lemma demo_created: "isCreated demo_fs ''/p''"
  by (simp add: isCreated_def demo_fs_def join_def is_file_def)

lemma demo_created_upd:
  "kind \<in> {''fieldtypes'', ''linktypes'', ''workflows'', ''cardtypes''} \<Longrightarrow>
   isCreated (demo_fs(join (resource_folder ''/p'' kind) n \<mapsto> v)) ''/p''"
  by (simp only: isCreated_write_resource demo_created)

lemma demo_createFieldType:
  "createFieldType demo_env demo_fs ''/p'' ''blocks'' ''number''
     = Inr (demo_fs(join (resource_folder ''/p'' ''fieldtypes'') ''blocks.json'' \<mapsto> File ''{}''))"
  by (simp add: createFieldType_def fieldTypeExists_def resourceExists_def new_Project_def
      demo_created)
     (simp add: resources_def resource_folder_def join_def demo_fs_def demo_env_def
      supportedFieldTypes_def writeFile_def parent_exists_def dirname_def)

lemma demo_createLinkType:
  "createLinkType demo_env demo_fs ''/p'' ''blocks''
     = Inr (demo_fs(join (resource_folder ''/p'' ''linktypes'') ''blocks.json'' \<mapsto> File ''{}''))"
  by (simp add: createLinkType_def linkTypeExists_def resourceExists_def new_Project_def
      demo_created)
     (simp add: resources_def resource_folder_def join_def demo_fs_def demo_env_def
      writeFile_def parent_exists_def dirname_def)

lemma demo_workflowExists: "workflowExists demo_env demo_fs ''/p'' ''simple'' = Inr True"
  by (simp add: workflowExists_def resourceExists_def new_Project_def demo_created)
     (simp add: resources_def resource_folder_def join_def demo_fs_def demo_env_def)

lemma demo_createCardtype:
  "createCardtype demo_env demo_fs ''/p'' ''blocks'' ''simple''
     = Inr (demo_fs(join (resource_folder ''/p'' ''cardtypes'') ''blocks.json'' \<mapsto> File ''{}''))"
  unfolding createCardtype_def demo_workflowExists
  by (simp add: writeFile_def parent_exists_def dirname_def join_def demo_fs_def demo_env_def
      resource_folder_def)

lemma demo_workflowExists_upd:
  "workflowExists demo_env
     (demo_fs(join (resource_folder ''/p'' ''cardtypes'') ''blocks.json'' \<mapsto> File ''{}''))
     ''/p'' ''simple'' = Inr True"
  by (simp add: workflowExists_def resourceExists_def new_Project_def demo_created_upd)
     (simp add: resources_def resource_folder_def join_def demo_fs_def demo_env_def)

definition demo_workflow :: workflowMetadata where
  "demo_workflow = \<lparr>workflow_name = ''blocks'', states = [], transitions = []\<rparr>"

lemma demo_createWorkflow:
  "createWorkflow demo_env demo_fs ''/p'' demo_workflow
     = Inr (demo_fs(join (resource_folder ''/p'' ''workflows'') ''blocks.json'' \<mapsto> File ''{}''))"
  by (simp add: createWorkflow_def demo_workflow_def writeFile_def parent_exists_def dirname_def
      join_def demo_fs_def demo_env_def resource_folder_def)

text \<open>Each of the four operations, called a second time for the name \<^verbatim>\<open>blocks\<close>.\<close>

theorem create_same_name_twice_witness:
  "createFieldType demo_env
     (demo_fs(join (resource_folder ''/p'' ''fieldtypes'') ''blocks.json'' \<mapsto> File ''{}''))
     ''/p'' ''blocks'' ''longText''
     = Inl (Error (''Field type with name '' @ [CHR 0x27] @ ''blocks'' @ [CHR 0x27]
                   @ '' already exists in the project''),
            demo_fs(join (resource_folder ''/p'' ''fieldtypes'') ''blocks.json'' \<mapsto> File ''{}''))
   \<and> createLinkType demo_env
     (demo_fs(join (resource_folder ''/p'' ''linktypes'') ''blocks.json'' \<mapsto> File ''{}''))
     ''/p'' ''blocks''
     = Inl (Error (''Link type with name '' @ [CHR 0x27] @ ''blocks'' @ [CHR 0x27]
                   @ '' already exists in the project''),
            demo_fs(join (resource_folder ''/p'' ''linktypes'') ''blocks.json'' \<mapsto> File ''{}''))
   \<and> createCardtype demo_env
     (demo_fs(join (resource_folder ''/p'' ''cardtypes'') ''blocks.json'' \<mapsto> File ''{}''))
     ''/p'' ''blocks'' ''simple''
     = Inl (SystemError ''EEXIST'' (joins [''/p'', ''.cards'', ''local'', ''cardtypes'', ''blocks.json'']),
            demo_fs(join (resource_folder ''/p'' ''cardtypes'') ''blocks.json'' \<mapsto> File ''{}''))
   \<and> createWorkflow demo_env
     (demo_fs(join (resource_folder ''/p'' ''workflows'') ''blocks.json'' \<mapsto> File ''{}''))
     ''/p'' demo_workflow
     = Inl (SystemError ''EEXIST'' (joins [''/p'', ''.cards'', ''local'', ''workflows'', ''blocks.json'']),
            demo_fs(join (resource_folder ''/p'' ''workflows'') ''blocks.json'' \<mapsto> File ''{}''))"
  using create_same_name_twice[of demo_env demo_fs "''/p''" "''blocks''" "''number''"
      "demo_fs(join (resource_folder ''/p'' ''fieldtypes'') ''blocks.json'' \<mapsto> File ''{}'')"
      "''longText''"
      "demo_fs(join (resource_folder ''/p'' ''linktypes'') ''blocks.json'' \<mapsto> File ''{}'')"
      "''simple''"
      "demo_fs(join (resource_folder ''/p'' ''cardtypes'') ''blocks.json'' \<mapsto> File ''{}'')"
      "''simple''" demo_workflow
      "demo_fs(join (resource_folder ''/p'' ''workflows'') ''blocks.json'' \<mapsto> File ''{}'')"
      demo_workflow]
    demo_createFieldType demo_createLinkType demo_createCardtype demo_createWorkflow
    demo_workflowExists_upd
  by (simp add: demo_env_def demo_workflow_def del: joins.simps)

text \<open>
  Claim C2 as stated fails for \<open>createCardtype\<close>: the second creation of a card type is
  not refused by a check of the name but by the write.
\<close>

theorem cardtype_twice_fails_at_write:
  "createCardtype demo_env demo_fs ''/p'' ''blocks'' ''simple''
     = Inr (demo_fs(''/p/.cards/local/cardtypes/blocks.json'' \<mapsto> File ''{}''))
   \<and> createCardtype demo_env
        (demo_fs(''/p/.cards/local/cardtypes/blocks.json'' \<mapsto> File ''{}''))
        ''/p'' ''blocks'' ''simple''
     = Inl (SystemError ''EEXIST'' ''/p/.cards/local/cardtypes/blocks.json'',
            demo_fs(''/p/.cards/local/cardtypes/blocks.json'' \<mapsto> File ''{}''))"
proof -
  have p: "join (resource_folder ''/p'' ''cardtypes'') ''blocks.json''
             = ''/p/.cards/local/cardtypes/blocks.json''"
    by (simp add: resource_folder_def join_def)
  have "createCardtype demo_env
        (demo_fs(join (resource_folder ''/p'' ''cardtypes'') ''blocks.json'' \<mapsto> File ''{}''))
        ''/p'' ''blocks'' ''simple''
     = Inl (SystemError ''EEXIST'' ''/p/.cards/local/cardtypes/blocks.json'',
            demo_fs(join (resource_folder ''/p'' ''cardtypes'') ''blocks.json'' \<mapsto> File ''{}''))"
    unfolding createCardtype_def demo_workflowExists_upd
    by (simp add: writeFile_def join_def resource_folder_def Let_def)
  with demo_createCardtype show ?thesis unfolding p by simp
qed

subsection \<open>Creating a project\<close>

text \<open>\<^verbatim>\<open>String.prototype.toLowerCase\<close> on the letters A to Z.\<close>

definition to_lower :: "char \<Rightarrow> char" where
  "to_lower c =
     (let n = (of_char c :: nat) in if 65 \<le> n \<and> n \<le> 90 then char_of (n + 32) else c)"

text \<open>
  The field \<^verbatim>\<open>schemaFilesContent\<close>, lines 62 to 97, of a new instance of the class,
  with the project's name and its prefix in lower case in place of the two placeholders,
  as lines 531 to 536 put them there. \<^verbatim>\<open>Project.schemaContentFile\<close> and
  \<^verbatim>\<open>Project.projectConfigFileName\<close> are the file names \<^verbatim>\<open>.schema\<close> and
  \<^verbatim>\<open>cardsconfig.json\<close> of the directory schema.
\<close>

definition schemaFilesContent :: "string \<Rightarrow> string \<Rightarrow> (string \<times> json \<times> string) list" where
  "schemaFilesContent projectPrefix projectName =
     [(''.cards/local'',
       JObject [(''id'', JString ''cardsconfig-schema''), (''version'', JNumber 1)],
       ''.schema''),
      (''.cards/local'',
       JObject [(''name'', JString projectName),
                (''cardkeyPrefix'', JString (map to_lower projectPrefix)),
                (''nextAvailableCardNumber'', JNumber 1)],
       ''cardsconfig.json''),
      (''.cards/local/cardtypes'',
       JObject [(''id'', JString ''/cardtype-schema''), (''version'', JNumber 1)],
       ''.schema''),
      (''.cards/local/fieldtypes'',
       JObject [(''id'', JString ''field-type-schema''), (''version'', JNumber 1)],
       ''.schema''),
      (''.cards/local/linktypes'',
       JObject [(''id'', JString ''link-type-schema''), (''version'', JNumber 1)],
       ''.schema''),
      (''.cards/local/workflows'',
       JObject [(''id'', JString ''workflow-schema''), (''version'', JNumber 1)],
       ''.schema'')]"

text \<open>
  The fields \<^verbatim>\<open>gitIgnoreContent\<close> and \<^verbatim>\<open>gitKeepContent\<close>, lines 99 to 109: the template
  literal holds an escaped and a written line feed after each entry, and the indentation
  of the source.
\<close>

definition gitIgnoreContent :: string where
  "gitIgnoreContent =
     ''.calc'' @ [CHR 0x0A, CHR 0x0A] @
     ''        .asciidoctor'' @ [CHR 0x0A, CHR 0x0A] @
     ''        .vscode'' @ [CHR 0x0A, CHR 0x0A] @
     ''        *.html'' @ [CHR 0x0A, CHR 0x0A] @
     ''        *.pdf'' @ [CHR 0x0A, CHR 0x0A] @
     ''        *.puml'' @ [CHR 0x0A, CHR 0x0A] @
     ''        **/.DS_Store'' @ [CHR 0x0A, CHR 0x0A] @
     ''        *-debug.log'' @ [CHR 0x0A, CHR 0x0A] @
     ''        *-error.log'' @ [CHR 0x0A]"

definition gitKeepContent :: string where
  "gitKeepContent = []"

text \<open>
  A call whose promise is not awaited: its effect takes place, and when it is rejected the
  caller does not see it and nothing handles the rejection. The rejections that a run
  leaves unhandled are collected. What becomes of them is the host's business and not in
  \<^verbatim>\<open>create.ts\<close>: Node ends the process at the first one unless the host has a
  handler for them or is started to only warn.
\<close>

definition unawaited :: "(fs \<Rightarrow> fs result) \<Rightarrow> fs \<times> error list \<Rightarrow> fs \<times> error list" where
  "unawaited call s =
     (case call (fst s) of
        Inl (e, fs') \<Rightarrow> (fs', snd s @ [e])
      | Inr fs' \<Rightarrow> (fs', snd s))"

text \<open>\<^verbatim>\<open>Promise.all\<close> over recursive \<^verbatim>\<open>mkdir\<close> calls, one after the other.\<close>

fun mkdirs_recursive :: "fs \<Rightarrow> string list \<Rightarrow> fs result" where
  "mkdirs_recursive fs [] = Inr fs"
| "mkdirs_recursive fs (p # ps) =
     (case mkdir_recursive fs p of Inl e \<Rightarrow> Inl e | Inr fs' \<Rightarrow> mkdirs_recursive fs' ps)"

text \<open>The end of \<open>createProject\<close>, from the \<^verbatim>\<open>try\<close> on: the \<^verbatim>\<open>catch\<close> only logs.\<close>

definition after_gitignore :: "fs \<Rightarrow> string \<Rightarrow> fs result" where
  "after_gitignore fs5 projectPath =
     (case new_Project fs5 projectPath of
        Inl e \<Rightarrow> Inr fs5
      | Inr _ \<Rightarrow>
          (case writeFile fs5 (join (resource_folder projectPath ''calculations'') ''.gitkeep'')
                  gitKeepContent W of
             Inl (e, fs6) \<Rightarrow> Inr fs6
           | Inr fs6 \<Rightarrow>
               (case writeFile fs6 (join (resource_folder projectPath ''fieldtypes'') ''.gitkeep'')
                       gitKeepContent W of
                  Inl (e, fs7) \<Rightarrow> Inr fs7
                | Inr fs7 \<Rightarrow> Inr fs7)))"

text \<open>
  \<^verbatim>\<open>Create.createProject\<close>, lines 496 to 558, for an absolute project path (which
  \<^verbatim>\<open>resolve\<close> returns as it is). The directories of the project are created and
  awaited; the sub-folders and the schema files are created by calls that are not
  awaited, taken here in the order in which they are issued; the write of
  \<^verbatim>\<open>.gitignore\<close> is awaited; the two \<^verbatim>\<open>.gitkeep\<close> files are written inside a
  \<^verbatim>\<open>try\<close>. None of the writes has a flag, so each is a write with the default flag
  \<^verbatim>\<open>w\<close>. The list of sub-folders has no \<^verbatim>\<open>linktypes\<close>, while the schema files
  have one for that folder. The folders \<^verbatim>\<open>calculationProjectFolder\<close> and
  \<^verbatim>\<open>fieldtypesFolder\<close> of the class \<^verbatim>\<open>Project\<close> are the folders \<^verbatim>\<open>calculations\<close>
  and \<^verbatim>\<open>fieldtypes\<close> under \<^verbatim>\<open>.cards/local\<close>.

  The value is the outcome of the promise of \<open>createProject\<close> and the rejections the
  run leaves unhandled, in a run that the host lets go on after them.
\<close>

definition createProject ::
  "env \<Rightarrow> fs \<Rightarrow> string \<Rightarrow> string \<Rightarrow> string \<Rightarrow> fs result \<times> error list" where
  "createProject env fs projectPath projectPrefix projectName =
     (let projectFolders = [''.cards/local'', ''cardroot''];
          projectSubFolders =
            [''calculations'', ''cardtypes'', ''fieldtypes'', ''templates'', ''workflows''];
          parentFolderToCreate = projectPath
      in if isCreated fs projectPath then (Inl (Error ''Project already exists'', fs), [])
         else
           case mkdir_recursive fs parentFolderToCreate of
             Inl e \<Rightarrow> (Inl e, [])
           | Inr fs1 \<Rightarrow>
           case mkdirs_recursive fs1
                  (map (\<lambda>folder. parentFolderToCreate @ ''/'' @ folder) projectFolders) of
             Inl e \<Rightarrow> (Inl e, [])
           | Inr fs2 \<Rightarrow>
           let s3 = foldl (\<lambda>s subFolder.
                       unawaited (\<lambda>fs. mkdir fs (join parentFolderToCreate ''.cards/local''
                                                  @ ''/'' @ subFolder)) s)
                       (fs2, []) projectSubFolders;
               s4 = foldl (\<lambda>s (path, content, name).
                       unawaited (\<lambda>fs. writeFile fs (joins [parentFolderToCreate, path, name])
                                           (formatJson env content) W) s)
                       s3 (schemaFilesContent projectPrefix projectName)
           in (case writeFile (fst s4) (join projectPath ''.gitignore'') gitIgnoreContent W of
                 Inl e \<Rightarrow> Inl e
               | Inr fs5 \<Rightarrow> after_gitignore fs5 projectPath,
               snd s4))"


text \<open>A directory with a \<^verbatim>\<open>.gitignore\<close> file and nothing else.\<close>

definition repo_fs :: fs where
  "repo_fs = map_of [(''/p'', Dir), (''/p/.gitignore'', File ''node_modules'')]"

subsection \<open>Exclusive creation\<close>

lemma mkdir_recursive_keeps:
  "mkdir_recursive fs p = Inr fs' \<Longrightarrow> fs q = Some v \<Longrightarrow> fs' q = Some v"
  by (auto simp: mkdir_recursive_def split: if_splits)

lemma mkdirs_recursive_keeps:
  "mkdirs_recursive fs ps = Inr fs' \<Longrightarrow> fs q = Some v \<Longrightarrow> fs' q = Some v"
proof (induction ps arbitrary: fs)
  case Nil
  then show ?case by simp
next
  case (Cons p ps)
  then show ?case
    by (auto split: sum.splits dest: mkdir_recursive_keeps)
qed


lemma self_in_directories_of: "p \<noteq> [] \<Longrightarrow> p \<in> set (directories_of p)"
  by (simp add: directories_of_def)

lemma mkdir_recursive_makes:
  assumes "mkdir_recursive fs p = Inr fs'" and "p \<noteq> []"
  shows "fs' p = Some Dir"
proof -
  from assms(1) have nofile: "\<not> list_ex (\<lambda>q. is_file (fs q)) (directories_of p)"
    and fs': "fs' = (\<lambda>q. if q \<in> set (directories_of p) \<and> fs q = None then Some Dir else fs q)"
    by (auto simp: mkdir_recursive_def split: if_splits)
  from nofile self_in_directories_of[OF assms(2)] have "\<not> is_file (fs p)"
    by (auto simp: list_ex_iff)
  then have "fs p = None \<or> fs p = Some Dir"
    by (auto simp: is_file_def split: option.splits node.splits)
  then show ?thesis using self_in_directories_of[OF assms(2)] by (auto simp: fs')
qed

lemma writeFile_W_file:
  assumes "is_file (fs p)" and "parent_exists fs p"
  shows "writeFile fs p d W = Inr (fs(p \<mapsto> File d))"
  using assms by (auto simp: writeFile_def is_file_def split: option.splits node.splits)

lemma writeFile_keeps_other:
  "writeFile fs p d flag = Inr fs' \<or> writeFile fs p d flag = Inl (e, fs') \<Longrightarrow> q \<noteq> p
     \<Longrightarrow> fs' q = fs q"
  by (auto simp: writeFile_def split: if_splits)














lemma repo_createProject:
  "snd (createProject demo_env repo_fs ''/p'' ''abc'' ''Demo'')
     = [SystemError ''ENOENT'' ''/p/.cards/local/linktypes/.schema'']"
  by code_simp




text \<open>The project at \<^verbatim>\<open>/p\<close> with a card type, a field type and a link type named \<^verbatim>\<open>blocks\<close>.\<close>

definition busy_fs :: fs where
  "busy_fs = demo_fs(''/p/.cards/local/cardtypes/blocks.json'' \<mapsto> File ''a'',
                     ''/p/.cards/local/fieldtypes/blocks.json'' \<mapsto> File ''b'',
                     ''/p/.cards/local/linktypes/blocks.json'' \<mapsto> File ''c'')"





subsection \<open>Supported data types\<close>

text \<open>
  A pattern as the field type schema declares it for \<^verbatim>\<open>dataType\<close>: alternatives, each
  between \<^verbatim>\<open>^\<close> and \<^verbatim>\<open>$\<close>, separated by \<^verbatim>\<open>|\<close>. The names of the alternatives
  hold none of the three characters.
\<close>

fun schema_pattern :: "string list \<Rightarrow> string" where
  "schema_pattern [] = []"
| "schema_pattern [a] = ''^'' @ a @ ''$''"
| "schema_pattern (a # b # r) = ''^'' @ a @ ''$|'' @ schema_pattern (b # r)"

definition plain_name :: "string \<Rightarrow> bool" where
  "plain_name a \<longleftrightarrow> CHR ''|'' \<notin> set a \<and> CHR ''^'' \<notin> set a \<and> CHR ''$'' \<notin> set a"

lemma split_on_no_separator: "d \<notin> set a \<Longrightarrow> split_on d a = [a]"
  by (induction a) auto

lemma split_on_append: "d \<notin> set a \<Longrightarrow> split_on d (a @ d # r) = a # split_on d r"
  by (induction a) auto

lemma filter_anchors_plain:
  "plain_name a \<Longrightarrow> filter (\<lambda>c. c \<noteq> CHR ''$'' \<and> c \<noteq> CHR ''^'') a = a"
  by (induction a) (auto simp: plain_name_def)

lemma supportedFieldTypes_schema_pattern:
  "alts \<noteq> [] \<Longrightarrow> list_all plain_name alts \<Longrightarrow> supportedFieldTypes (schema_pattern alts) = alts"
proof (induction alts rule: schema_pattern.induct)
  case 1
  then show ?case by simp
next
  case (2 a)
  then show ?case
    by (simp add: supportedFieldTypes_def filter_anchors_plain split_on_no_separator plain_name_def)
next
  case (3 a b r)
  then have "supportedFieldTypes (schema_pattern (b # r)) = b # r" by simp
  moreover have "CHR ''|'' \<notin> set a" using 3 by (simp add: plain_name_def)
  ultimately show ?case
    using 3(2,3) split_on_append[of "CHR ''|''" a]
    by (simp add: supportedFieldTypes_def filter_anchors_plain)
qed

lemma resourceExists_Inl: "resourceExists env fs kind p n = Inl x \<Longrightarrow> x = (NotAProjectError p, fs)"
  by (auto simp: resourceExists_def new_Project_def split: if_splits)

lemma createFieldType_unsupported:
  assumes "d \<notin> set (supportedFieldTypes (dataType_pattern env))"
  shows "(\<exists>e. createFieldType env fs p n d = Inl (e, fs)) \<and>
         (fieldTypeExists env fs p n = Inr False \<longrightarrow>
            createFieldType env fs p n d
              = Inl (Error (''Field type '' @ [CHR 0x27] @ d @ [CHR 0x27]
                            @ '' not supported. Supported types ''
                            @ array_toString (supportedFieldTypes (dataType_pattern env))), fs))"
  using assms
  by (cases "fieldTypeExists env fs p n")
     (auto simp: createFieldType_def fieldTypeExists_def dest: resourceExists_Inl)

lemma createFieldType_supported:
  assumes "d \<in> set (supportedFieldTypes (dataType_pattern env))"
    and "fieldTypeExists env fs p n = Inr False"
    and "fs (resource_folder p ''fieldtypes'') = Some Dir"
    and "CHR ''/'' \<notin> set n"
  shows "createFieldType env fs p n d
           = Inr (fs(joins [p, ''.cards'', ''local'', ''fieldtypes'', n @ ''.json'']
                  \<mapsto> File (formatJson env (JObject [(''name'', JString n),
                                                      (''dataType'', JString d)]))))"
proof -
  let ?dest = "join (resource_folder p ''fieldtypes'') (n @ ''.json'')"
  have free: "fs ?dest = None"
    using assms(2,4) by (intro resourceExists_False_free) (simp_all add: fieldTypeExists_def)
  have "dirname ?dest = resource_folder p ''fieldtypes''"
    using assms(4) by (intro dirname_join) simp
  then have "parent_exists fs ?dest" using assms(3) by (simp add: parent_exists_def)
  with free have "writeFile fs ?dest c WX = Inr (fs(?dest \<mapsto> File c))" for c
    by (simp add: writeFile_def)
  moreover have "joins [p, ''.cards'', ''local'', ''fieldtypes'', n @ ''.json''] = ?dest"
    by (simp add: resource_folder_def)
  ultimately show ?thesis
    using assms(1,2) by (simp add: createFieldType_def Let_def del: joins.simps)
qed

text \<open>
  Claim C8, as the code has it. The supported data types are read off the pattern of the
  schema document, whatever it is; for a pattern of anchored alternatives they are the
  alternatives. With a data type that is not among them \<open>createFieldType\<close> fails and
  leaves the file system as it is; the error is the \<^verbatim>\<open>not supported\<close> one when no field
  type of the name exists (the name is checked first). With a supported data type, no
  field type of the name, the folder \<^verbatim>\<open>fieldtypes\<close> of the project in place and a name
  without a path separator, it succeeds and writes the document of the field type.
\<close>

theorem createFieldType_data_types:
  "(d \<notin> set (supportedFieldTypes (dataType_pattern env)) \<longrightarrow>
      (\<exists>e. createFieldType env fs p n d = Inl (e, fs)) \<and>
      (fieldTypeExists env fs p n = Inr False \<longrightarrow>
         createFieldType env fs p n d
           = Inl (Error (''Field type '' @ [CHR 0x27] @ d @ [CHR 0x27]
                         @ '' not supported. Supported types ''
                         @ array_toString (supportedFieldTypes (dataType_pattern env))), fs)))
 \<and> (d \<in> set (supportedFieldTypes (dataType_pattern env)) \<and>
      fieldTypeExists env fs p n = Inr False \<and>
      fs (resource_folder p ''fieldtypes'') = Some Dir \<and> CHR ''/'' \<notin> set n \<longrightarrow>
      createFieldType env fs p n d
        = Inr (fs(joins [p, ''.cards'', ''local'', ''fieldtypes'', n @ ''.json'']
               \<mapsto> File (formatJson env (JObject [(''name'', JString n),
                                                   (''dataType'', JString d)])))))
 \<and> (alts \<noteq> [] \<and> list_all plain_name alts \<longrightarrow>
      supportedFieldTypes (schema_pattern alts) = alts)"
  using createFieldType_unsupported[of d env fs p n] createFieldType_supported[of d env fs p n]
    supportedFieldTypes_schema_pattern[of alts]
  by blast

lemma demo_fieldTypeExists: "fieldTypeExists demo_env demo_fs ''/p'' ''owner'' = Inr False"
  by (simp add: fieldTypeExists_def resourceExists_def new_Project_def demo_created)
     (simp add: resources_def resource_folder_def join_def demo_fs_def demo_env_def)

text \<open>The data types \<^verbatim>\<open>colour\<close> and \<^verbatim>\<open>number\<close> for a new field type \<^verbatim>\<open>owner\<close>.\<close>

theorem createFieldType_data_types_witness:
  "createFieldType demo_env demo_fs ''/p'' ''owner'' ''colour''
     = Inl (Error (''Field type '' @ [CHR 0x27] @ ''colour'' @ [CHR 0x27]
                   @ '' not supported. Supported types shortText,longText,number''), demo_fs)
 \<and> createFieldType demo_env demo_fs ''/p'' ''owner'' ''number''
     = Inr (demo_fs(''/p/.cards/local/fieldtypes/owner.json'' \<mapsto> File ''{}''))
 \<and> supportedFieldTypes (schema_pattern [''shortText'', ''longText'', ''number''])
     = [''shortText'', ''longText'', ''number'']"
proof -
  have pat: "supportedFieldTypes (dataType_pattern demo_env) = [''shortText'', ''longText'', ''number'']"
    by (simp add: demo_env_def supportedFieldTypes_def)
  have dir: "demo_fs (resource_folder ''/p'' ''fieldtypes'') = Some Dir"
    by (simp add: demo_fs_def resource_folder_def join_def)
  have "createFieldType demo_env demo_fs ''/p'' ''owner'' ''colour''
     = Inl (Error (''Field type '' @ [CHR 0x27] @ ''colour'' @ [CHR 0x27]
                   @ '' not supported. Supported types shortText,longText,number''), demo_fs)"
    using createFieldType_data_types[of "''colour''" demo_env demo_fs "''/p''" "''owner''"
        "[''shortText'', ''longText'', ''number'']"] demo_fieldTypeExists
    by (simp add: pat)
  moreover have "createFieldType demo_env demo_fs ''/p'' ''owner'' ''number''
     = Inr (demo_fs(''/p/.cards/local/fieldtypes/owner.json'' \<mapsto> File ''{}''))
   \<and> supportedFieldTypes (schema_pattern [''shortText'', ''longText'', ''number''])
     = [''shortText'', ''longText'', ''number'']"
    using createFieldType_data_types[of "''number''" demo_env demo_fs "''/p''" "''owner''"
        "[''shortText'', ''longText'', ''number'']"] demo_fieldTypeExists dir
    by (simp add: pat plain_name_def join_def) (simp add: demo_env_def)
  ultimately show ?thesis by blast
qed

text \<open>
  Claim C8 as stated fails where the field type exists: the error for the unsupported
  data type \<^verbatim>\<open>colour\<close> is not the \<^verbatim>\<open>not supported\<close> one.
\<close>

theorem unsupported_type_of_existing_name:
  "''colour'' \<notin> set (supportedFieldTypes (dataType_pattern demo_env)) \<and>
   createFieldType demo_env busy_fs ''/p'' ''blocks'' ''colour''
     = Inl (Error (''Field type with name '' @ [CHR 0x27] @ ''blocks'' @ [CHR 0x27]
                   @ '' already exists in the project''), busy_fs)"
proof -
  have "isCreated busy_fs ''/p''"
    using demo_created by (simp add: isCreated_def busy_fs_def join_def)
  moreover have "''blocks'' @ ''.json'' \<in> resources demo_env busy_fs ''/p'' ''fieldtypes''"
    by (intro in_resources) (simp_all add: resource_folder_def join_def busy_fs_def)
  ultimately have "fieldTypeExists demo_env busy_fs ''/p'' ''blocks'' = Inr True"
    unfolding fieldTypeExists_def resourceExists_def new_Project_def by auto
  then show ?thesis
    by (simp add: createFieldType_exists) (simp add: demo_env_def supportedFieldTypes_def)
qed

subsection \<open>Links between cards\<close>

text \<open>
  \<^verbatim>\<open>Create.createLink\<close>, lines 437 to 488. The entry that is appended is the object
  \<^verbatim>\<open>{ linkType, cardKey: destinationCardKey, linkDescription }\<close>;
  \<^verbatim>\<open>card.metadata?.links\<close> is absent when the metadata or its links are;
  \<^verbatim>\<open>card.metadata?.links || []\<close> is then the empty array. The card is asked for with
  the options \<^verbatim>\<open>{ metadata: true }\<close>.
\<close>

definition new_link :: "string \<Rightarrow> string \<Rightarrow> string option \<Rightarrow> link" where
  "new_link linkType' destinationCardKey linkDescription' =
     \<lparr>linkType = linkType', cardKey = destinationCardKey, linkDescription = linkDescription'\<rparr>"

definition metadata_links :: "card \<Rightarrow> link list option" where
  "metadata_links c = (case metadata c of None \<Rightarrow> None | Some m \<Rightarrow> links m)"

definition card_links :: "card \<Rightarrow> link list" where
  "card_links c = (case metadata_links c of None \<Rightarrow> [] | Some ls \<Rightarrow> ls)"

definition only_metadata :: fetchCardDetails where
  "only_metadata =
     \<lparr>d_attachments = None, d_children = None, d_content = None, d_metadata = Some True\<rparr>"

definition createLink ::
  "env \<Rightarrow> fs \<Rightarrow> string \<Rightarrow> string \<Rightarrow> string \<Rightarrow> string \<Rightarrow> string option \<Rightarrow> fs result" where
  "createLink env fs projectPath cardKey' destinationCardKey linkType' linkDescription' =
     (case new_Project fs projectPath of
        Inl e \<Rightarrow> Inl e
      | Inr _ \<Rightarrow>
     (case findSpecificCard env fs projectPath cardKey' only_metadata of
        None \<Rightarrow>
          Inl (Error (''Card '' @ [CHR 0x27] @ cardKey' @ [CHR 0x27]
                      @ '' does not exist in the project''), fs)
      | Some c \<Rightarrow>
          if falsy (pathToCard env fs projectPath destinationCardKey) then
            Inl (Error (''Card '' @ [CHR 0x27] @ destinationCardKey @ [CHR 0x27]
                        @ '' does not exist in the project''), fs)
          else
            (case linkTypeExists env fs projectPath linkType' of
               Inl e \<Rightarrow> Inl e
             | Inr exists \<Rightarrow>
                 if \<not> exists then
                   Inl (Error (''Link type '' @ [CHR 0x27] @ linkType' @ [CHR 0x27]
                               @ '' does not exist in the project''), fs)
                 else
                   (let existingLink =
                          (case metadata_links c of
                             None \<Rightarrow> None
                           | Some ls \<Rightarrow>
                               find (\<lambda>l. linkType l = linkType' \<and>
                                          cardKey l = destinationCardKey \<and>
                                          linkDescription l = linkDescription') ls)
                    in if existingLink \<noteq> None then
                         Inl (Error (''Link from card '' @ [CHR 0x27] @ cardKey' @ [CHR 0x27]
                                     @ '' to card '' @ [CHR 0x27] @ destinationCardKey
                                     @ [CHR 0x27] @ '' already exists''), fs)
                       else
                         (let links' = card_links c
                                       @ [new_link linkType' destinationCardKey linkDescription']
                          in updateCardMetadata env fs projectPath cardKey' ''links'' links')))))"

text \<open>
  The schema of an entry of \<^verbatim>\<open>links\<close> in the card base schema
  (\<^verbatim>\<open>src/unnamed/part_001\<close>, lines 48 to 77): the names of the declared properties, the
  required properties, and whether other properties are allowed.
\<close>

record object_schema =
  properties :: "string list"
  required :: "string list"
  additionalProperties :: bool

definition link_item_schema :: object_schema where
  "link_item_schema =
     \<lparr>properties = [''cardkey'', ''linktype'', ''linkDescription''],
      required = [''direction'', ''cardkey'', ''linktype''],
      additionalProperties = False\<rparr>"

text \<open>
  The entry as a JSON document: \<^verbatim>\<open>JSON.stringify\<close> leaves out a property whose value
  is undefined. \<open>conforms\<close> is what \<^verbatim>\<open>required\<close> and \<^verbatim>\<open>additionalProperties\<close>
  ask of an object.
\<close>

definition link_json :: "link \<Rightarrow> json" where
  "link_json l =
     JObject ([(''linkType'', JString (linkType l)), (''cardKey'', JString (cardKey l))]
              @ (case linkDescription l of
                   None \<Rightarrow> []
                 | Some d \<Rightarrow> [(''linkDescription'', JString d)]))"

definition object_keys :: "json \<Rightarrow> string list" where
  "object_keys j = (case j of JObject kvs \<Rightarrow> map fst kvs | _ \<Rightarrow> [])"

definition conforms :: "object_schema \<Rightarrow> json \<Rightarrow> bool" where
  "conforms s j \<longleftrightarrow>
     list_all (\<lambda>r. r \<in> set (object_keys j)) (required s) \<and>
     (additionalProperties s \<or> list_all (\<lambda>k. k \<in> set (properties s)) (object_keys j))"

text \<open>The checks of \<open>createLink\<close> in their order, the test for an identical link as membership.\<close>

lemma link_eq:
  "linkType l = lt \<and> cardKey l = dk \<and> linkDescription l = ld \<longleftrightarrow> l = new_link lt dk ld"
  by (cases l) (auto simp: new_link_def)

lemma find_link_iff:
  "find (\<lambda>l. linkType l = lt \<and> cardKey l = dk \<and> linkDescription l = ld) ls \<noteq> None
     \<longleftrightarrow> new_link lt dk ld \<in> set ls"
  unfolding link_eq by (auto simp: find_None_iff)

lemma find_link_None:
  "find (\<lambda>l. linkType l = lt \<and> cardKey l = dk \<and> linkDescription l = ld) ls = None
     \<longleftrightarrow> new_link lt dk ld \<notin> set ls"
  using find_link_iff[of lt dk ld ls] by blast

lemma find_link_Some:
  "find (\<lambda>l. linkType l = lt \<and> cardKey l = dk \<and> linkDescription l = ld) ls = Some y
     \<Longrightarrow> new_link lt dk ld \<in> set ls"
  using find_link_iff[of lt dk ld ls] by simp

lemma linkTypeExists_Inl: "linkTypeExists env fs p n = Inl x \<Longrightarrow> x = (NotAProjectError p, fs)"
  by (auto simp: linkTypeExists_def dest: resourceExists_Inl)

lemma in_card_links:
  "l \<in> set (card_links c) \<longleftrightarrow> (\<exists>ls. metadata_links c = Some ls \<and> l \<in> set ls)"
  by (cases "metadata_links c") (auto simp: card_links_def)

lemma createLink_cases:
  "createLink env fs p k dk lt ld =
     (if \<not> isCreated fs p then Inl (NotAProjectError p, fs)
      else case findSpecificCard env fs p k only_metadata of
        None \<Rightarrow> Inl (Error (''Card '' @ [CHR 0x27] @ k @ [CHR 0x27]
                      @ '' does not exist in the project''), fs)
      | Some c \<Rightarrow>
          if falsy (pathToCard env fs p dk) then
            Inl (Error (''Card '' @ [CHR 0x27] @ dk @ [CHR 0x27]
                        @ '' does not exist in the project''), fs)
          else if linkTypeExists env fs p lt = Inr False then
            Inl (Error (''Link type '' @ [CHR 0x27] @ lt @ [CHR 0x27]
                        @ '' does not exist in the project''), fs)
          else if new_link lt dk ld \<in> set (card_links c) then
            Inl (Error (''Link from card '' @ [CHR 0x27] @ k @ [CHR 0x27]
                        @ '' to card '' @ [CHR 0x27] @ dk @ [CHR 0x27] @ '' already exists''), fs)
          else updateCardMetadata env fs p k ''links'' (card_links c @ [new_link lt dk ld]))"
proof (cases "isCreated fs p")
  case False
  then show ?thesis by (simp add: createLink_def new_Project_def)
next
  case True
  then obtain b where b: "linkTypeExists env fs p lt = Inr b"
    by (auto simp: linkTypeExists_def resourceExists_def new_Project_def)
  show ?thesis
    using True b
    by (cases "metadata_links (the (findSpecificCard env fs p k only_metadata))")
       (auto simp: createLink_def new_Project_def Let_def find_link_None in_card_links
          card_links_def split: option.splits dest: find_link_Some)
qed

text \<open>
  Claim C7. \<open>createLink\<close> fails and leaves the file system as it is, without calling
  \<^verbatim>\<open>updateCardMetadata\<close>, when the source card is not found, when the destination key
  has no path, when the link type is not among the link types of the project, and when
  the source card holds a link with the same type, destination and description. When
  none of these is the case it is the call of \<^verbatim>\<open>updateCardMetadata\<close> for the field
  \<^verbatim>\<open>links\<close> of the source card, with the card's links and the one new entry at their
  end.
\<close>

theorem createLink_integrity:
  "(findSpecificCard env fs p k only_metadata = None \<longrightarrow>
      (\<exists>e. createLink env fs p k dk lt ld = Inl (e, fs)))
 \<and> (falsy (pathToCard env fs p dk) \<longrightarrow>
      (\<exists>e. createLink env fs p k dk lt ld = Inl (e, fs)))
 \<and> (linkTypeExists env fs p lt = Inr False \<longrightarrow>
      (\<exists>e. createLink env fs p k dk lt ld = Inl (e, fs)))
 \<and> (findSpecificCard env fs p k only_metadata = Some c \<and>
      new_link lt dk ld \<in> set (card_links c) \<longrightarrow>
      (\<exists>e. createLink env fs p k dk lt ld = Inl (e, fs)))
 \<and> (findSpecificCard env fs p k only_metadata = Some c \<and>
      \<not> falsy (pathToCard env fs p dk) \<and>
      linkTypeExists env fs p lt = Inr True \<and>
      new_link lt dk ld \<notin> set (card_links c) \<longrightarrow>
      createLink env fs p k dk lt ld
        = updateCardMetadata env fs p k ''links'' (card_links c @ [new_link lt dk ld]))"
proof (intro conjI impI)
  assume "findSpecificCard env fs p k only_metadata = None"
  then show "\<exists>e. createLink env fs p k dk lt ld = Inl (e, fs)"
    by (simp add: createLink_cases)
next
  assume "falsy (pathToCard env fs p dk)"
  then show "\<exists>e. createLink env fs p k dk lt ld = Inl (e, fs)"
    by (simp add: createLink_cases split: option.splits)
next
  assume "linkTypeExists env fs p lt = Inr False"
  then show "\<exists>e. createLink env fs p k dk lt ld = Inl (e, fs)"
    by (simp add: createLink_cases split: option.splits)
next
  assume "findSpecificCard env fs p k only_metadata = Some c \<and>
      new_link lt dk ld \<in> set (card_links c)"
  then show "\<exists>e. createLink env fs p k dk lt ld = Inl (e, fs)"
    by (simp add: createLink_cases)
next
  assume a: "findSpecificCard env fs p k only_metadata = Some c \<and>
      \<not> falsy (pathToCard env fs p dk) \<and>
      linkTypeExists env fs p lt = Inr True \<and>
      new_link lt dk ld \<notin> set (card_links c)"
  then have "isCreated fs p"
    by (auto simp: linkTypeExists_def dest: resourceExists_Inr)
  with a show "createLink env fs p k dk lt ld
        = updateCardMetadata env fs p k ''links'' (card_links c @ [new_link lt dk ld])"
    by (simp add: createLink_cases)
qed

text \<open>
  A project in which the card \<^verbatim>\<open>abc_1\<close> has no links and \<^verbatim>\<open>abc_3\<close> blocks \<^verbatim>\<open>abc_2\<close>,
  with an update that records the keys of the links it is given.
\<close>

definition linked_card :: "string \<Rightarrow> link list option \<Rightarrow> card" where
  "linked_card k ls =
     \<lparr>key = k, path = ''/p/cardroot/'' @ k, content = None,
      metadata = Some \<lparr>cardtype = ''task'', title = ''A card'', workflowState = ''Draft'',
                       rank = ''0|a'', links = ls\<rparr>,
      attachments = None\<rparr>"

definition link_env :: env where
  "link_env = demo_env
     \<lparr>findSpecificCard := (\<lambda>fs p k d.
          if k = ''abc_1'' then Some (linked_card ''abc_1'' None)
          else if k = ''abc_3'' then
            Some (linked_card ''abc_3'' (Some [new_link ''blocks'' ''abc_2'' None]))
          else None),
      pathToCard := (\<lambda>fs p k.
          if k \<in> {''abc_1'', ''abc_2'', ''abc_3''} then Some (''/p/cardroot/'' @ k) else None),
      updateCardMetadata := (\<lambda>fs p k f v.
          Inr (fs(''/p/cardroot/'' @ k @ ''/index.json'' \<mapsto> File (f @ '': '' @ concat (map cardKey v)))))\<rparr>"

lemma busy_created: "isCreated busy_fs ''/p''"
  using demo_created by (simp add: isCreated_def busy_fs_def join_def)

lemma busy_linkTypeExists: "linkTypeExists link_env busy_fs ''/p'' ''blocks'' = Inr True"
proof -
  have "''blocks'' @ ''.json'' \<in> resources link_env busy_fs ''/p'' ''linktypes''"
    by (intro in_resources) (simp_all add: resource_folder_def join_def busy_fs_def)
  then show ?thesis
    using busy_created unfolding linkTypeExists_def resourceExists_def new_Project_def by auto
qed

lemma busy_linkTypeExists_not: "linkTypeExists link_env busy_fs ''/p'' ''causes'' = Inr False"
  using busy_created
  by (simp add: linkTypeExists_def resourceExists_def new_Project_def)
     (simp add: resources_def resource_folder_def join_def busy_fs_def demo_fs_def link_env_def
        demo_env_def)

text \<open>A new link, the identical link, an unknown source, an unknown destination, an unknown link type.\<close>

theorem createLink_integrity_witness:
  "createLink link_env busy_fs ''/p'' ''abc_1'' ''abc_2'' ''blocks'' None
     = Inr (busy_fs(''/p/cardroot/abc_1/index.json'' \<mapsto> File ''links: abc_2''))
 \<and> (\<exists>e. createLink link_env busy_fs ''/p'' ''abc_3'' ''abc_2'' ''blocks'' None = Inl (e, busy_fs))
 \<and> (\<exists>e. createLink link_env busy_fs ''/p'' ''abc_9'' ''abc_2'' ''blocks'' None = Inl (e, busy_fs))
 \<and> (\<exists>e. createLink link_env busy_fs ''/p'' ''abc_1'' ''abc_9'' ''blocks'' None = Inl (e, busy_fs))
 \<and> (\<exists>e. createLink link_env busy_fs ''/p'' ''abc_1'' ''abc_2'' ''causes'' None = Inl (e, busy_fs))"
proof -
  have 1: "createLink link_env busy_fs ''/p'' ''abc_1'' ''abc_2'' ''blocks'' None
     = Inr (busy_fs(''/p/cardroot/abc_1/index.json'' \<mapsto> File ''links: abc_2''))"
    using createLink_integrity[of link_env busy_fs "''/p''" "''abc_1''" "''abc_2''" "''blocks''"
        None "linked_card ''abc_1'' None"] busy_linkTypeExists
    by (simp add: link_env_def falsy_def card_links_def metadata_links_def linked_card_def
        new_link_def)
  have 2: "\<exists>e. createLink link_env busy_fs ''/p'' ''abc_3'' ''abc_2'' ''blocks'' None
             = Inl (e, busy_fs)"
    using createLink_integrity[of link_env busy_fs "''/p''" "''abc_3''" "''abc_2''" "''blocks''"
        None "linked_card ''abc_3'' (Some [new_link ''blocks'' ''abc_2'' None])"]
    by (simp add: link_env_def card_links_def metadata_links_def linked_card_def)
  have 3: "\<exists>e. createLink link_env busy_fs ''/p'' ''abc_9'' ''abc_2'' ''blocks'' None
             = Inl (e, busy_fs)"
    using createLink_integrity[of link_env busy_fs "''/p''" "''abc_9''" "''abc_2''" "''blocks''"
        None]
    by (simp add: link_env_def)
  have 4: "\<exists>e. createLink link_env busy_fs ''/p'' ''abc_1'' ''abc_9'' ''blocks'' None
             = Inl (e, busy_fs)"
    using createLink_integrity[of link_env busy_fs "''/p''" "''abc_1''" "''abc_9''" "''blocks''"
        None]
    by (simp add: link_env_def falsy_def)
  have 5: "\<exists>e. createLink link_env busy_fs ''/p'' ''abc_1'' ''abc_2'' ''causes'' None
             = Inl (e, busy_fs)"
    using createLink_integrity[of link_env busy_fs "''/p''" "''abc_1''" "''abc_2''" "''causes''"
        None] busy_linkTypeExists_not
    by simp
  from 1 2 3 4 5 show ?thesis by blast
qed

text \<open>
  Claim C9. Whatever its arguments, \<open>createLink\<close> either fails or hands
  \<^verbatim>\<open>updateCardMetadata\<close> the links of a card with one entry appended, and the
  properties of that entry are \<^verbatim>\<open>linkType\<close>, \<^verbatim>\<open>cardKey\<close> and, when a description is
  given, \<^verbatim>\<open>linkDescription\<close>: never \<^verbatim>\<open>direction\<close>. The schema of a link entry
  requires \<^verbatim>\<open>direction\<close>, \<^verbatim>\<open>cardkey\<close> and \<^verbatim>\<open>linktype\<close>, declares
  \<^verbatim>\<open>cardkey\<close>, \<^verbatim>\<open>linktype\<close> and \<^verbatim>\<open>linkDescription\<close> and allows no other
  property, so the entry does not conform to it.
\<close>

theorem createLink_sets_no_direction:
  "((\<exists>e. createLink env fs p k dk lt ld = Inl (e, fs)) \<or>
    (\<exists>c. createLink env fs p k dk lt ld
           = updateCardMetadata env fs p k ''links'' (card_links c @ [new_link lt dk ld])))
 \<and> object_keys (link_json (new_link lt dk ld))
     = [''linkType'', ''cardKey''] @ (case ld of None \<Rightarrow> [] | Some d \<Rightarrow> [''linkDescription''])
 \<and> ''direction'' \<notin> set (object_keys (link_json (new_link lt dk ld)))
 \<and> required link_item_schema = [''direction'', ''cardkey'', ''linktype'']
 \<and> properties link_item_schema = [''cardkey'', ''linktype'', ''linkDescription'']
 \<and> additionalProperties link_item_schema = False
 \<and> conforms link_item_schema (link_json (new_link lt dk ld)) = False"
proof -
  have "(\<exists>e. createLink env fs p k dk lt ld = Inl (e, fs)) \<or>
    (\<exists>c. createLink env fs p k dk lt ld
           = updateCardMetadata env fs p k ''links'' (card_links c @ [new_link lt dk ld]))"
    by (auto simp: createLink_cases split: option.splits)
  moreover have "object_keys (link_json (new_link lt dk ld))
     = [''linkType'', ''cardKey''] @ (case ld of None \<Rightarrow> [] | Some d \<Rightarrow> [''linkDescription''])"
    by (simp add: object_keys_def link_json_def new_link_def split: option.splits)
  ultimately show ?thesis
    by (simp add: link_item_schema_def conforms_def split: option.splits)
qed

subsection \<open>Adding cards to a template\<close>

text \<open>A whole number in a template literal: its decimal digits.\<close>

definition digit :: "nat \<Rightarrow> char" where
  "digit n = ''0123456789'' ! n"

fun show_nat :: "nat \<Rightarrow> string" where
  "show_nat n = (if n < 10 then [digit n] else show_nat (n div 10) @ [digit (n mod 10)])"

definition show_int :: "int \<Rightarrow> string" where
  "show_int i = (if i < 0 then ''-'' @ show_nat (nat (- i)) else show_nat (nat i))"

text \<open>
  The class \<^verbatim>\<open>Template\<close> (\<^verbatim>\<open>containers/template.ts\<close>) is not among the sources. What
  \<open>addCards\<close> calls of it is a parameter: \<^verbatim>\<open>Template.normalizedTemplateName\<close>,
  \<^verbatim>\<open>findSpecificCard\<close>, \<^verbatim>\<open>templateFolder\<close> and \<^verbatim>\<open>addCard\<close>, which adds one card
  to the template and gives its key, or fails; and \<^verbatim>\<open>JSON.stringify\<close> on the keys.
\<close>

record template_api =
  normalizedTemplateName :: "string \<Rightarrow> string"
  template_findSpecificCard :: "fs \<Rightarrow> string \<Rightarrow> string \<Rightarrow> string \<Rightarrow> card option"
  templateFolder :: "string \<Rightarrow> string \<Rightarrow> string"
  addCard :: "fs \<Rightarrow> string \<Rightarrow> string \<Rightarrow> string \<Rightarrow> card option \<Rightarrow> (error \<times> fs) + (string \<times> fs)"
  stringify_keys :: "string list \<Rightarrow> string"

text \<open>
  The loop of lines 190 to 194. Each call of \<^verbatim>\<open>addCard\<close> is awaited where it is made,
  before its result is pushed: a call that fails rejects \<open>addCards\<close> there, and the
  calls after it are not made.
\<close>

fun add_loop ::
  "template_api \<Rightarrow> fs \<Rightarrow> string \<Rightarrow> string \<Rightarrow> string \<Rightarrow> card option \<Rightarrow> nat
     \<Rightarrow> (error \<times> fs) + (string list \<times> fs)" where
  "add_loop api fs projectPath templateName cardTypeName specificCard 0 = Inr ([], fs)"
| "add_loop api fs projectPath templateName cardTypeName specificCard (Suc n) =
     (case addCard api fs projectPath templateName cardTypeName specificCard of
        Inl e \<Rightarrow> Inl e
      | Inr (k, fs') \<Rightarrow>
          (case add_loop api fs' projectPath templateName cardTypeName specificCard n of
             Inl e \<Rightarrow> Inl e
           | Inr (ks, fs'') \<Rightarrow> Inr (k # ks, fs'')))"

text \<open>
  \<^verbatim>\<open>Create.addCards\<close>, lines 159 to 219. The counter is a whole number; a count that is
  not positive makes no call. The array handed to \<^verbatim>\<open>Promise.allSettled\<close> holds the
  keys, not promises, so every result is fulfilled, the callback returns nothing and the
  branch \<^verbatim>\<open>Unknown error\<close> is not reached.
\<close>

definition truthy :: "string option \<Rightarrow> bool" where
  "truthy v \<longleftrightarrow> \<not> falsy v"

definition addCards ::
  "template_api \<Rightarrow> fs \<Rightarrow> string \<Rightarrow> string \<Rightarrow> string \<Rightarrow> string option \<Rightarrow> int
     \<Rightarrow> (error \<times> fs) + (string \<times> fs)" where
  "addCards api fs projectPath cardTypeName templateName card' count' =
     (let origTemplateName = templateName;
          templateName' = normalizedTemplateName api templateName
      in if templateName' = [] then
           Inl (Error (''Template '' @ [CHR 0x27] @ origTemplateName @ [CHR 0x27]
                       @ '' is invalid template name''), fs)
         else
           (let specificCard =
                  (if truthy card' then
                     template_findSpecificCard api fs projectPath templateName' (the card')
                   else None)
            in if truthy card' \<and> specificCard = None then
                 Inl (Error (''Card '' @ [CHR 0x27] @ the card' @ [CHR 0x27]
                             @ '' was not found from template '' @ [CHR 0x27]
                             @ origTemplateName @ [CHR 0x27]), fs)
               else if str_includes (templateFolder api projectPath templateName') ''/modules/''
               then Inl (Error ''Cannot add cards to imported module templates'', fs)
               else
                 (case add_loop api fs projectPath templateName' cardTypeName specificCard
                         (nat count') of
                    Inl e \<Rightarrow> Inl e
                  | Inr (cardsContainer, fs') \<Rightarrow>
                      if length cardsContainer = 0 then
                        Inl (Error (''Invalid value for '' @ [CHR 0x27] @ ''repeat:''
                                    @ [CHR 0x27] @ '' '' @ [CHR 0x22] @ show_int count'
                                    @ [CHR 0x22]), fs')
                      else
                        Inr (if count' > 1 then
                               show_int count' @ '' cards were added to the template ''
                               @ [CHR 0x27] @ templateName' @ '' : ''
                               @ stringify_keys api cardsContainer @ [CHR 0x27]
                             else
                               ''card '' @ [CHR 0x27] @ hd cardsContainer @ [CHR 0x27]
                               @ '' was added to the template '' @ [CHR 0x27] @ templateName'
                               @ [CHR 0x27],
                             fs'))))"

text \<open>The three checks before the loop pass; the parent card the loop is given.\<close>

definition admits :: "template_api \<Rightarrow> fs \<Rightarrow> string \<Rightarrow> string \<Rightarrow> string option \<Rightarrow> bool" where
  "admits api fs projectPath templateName card' \<longleftrightarrow>
     normalizedTemplateName api templateName \<noteq> [] \<and>
     (falsy card' \<or>
      template_findSpecificCard api fs projectPath (normalizedTemplateName api templateName)
        (the card') \<noteq> None) \<and>
     \<not> str_includes (templateFolder api projectPath (normalizedTemplateName api templateName))
          ''/modules/''"

definition parent_of :: "template_api \<Rightarrow> fs \<Rightarrow> string \<Rightarrow> string \<Rightarrow> string option \<Rightarrow> card option" where
  "parent_of api fs projectPath templateName card' =
     (if truthy card' then
        template_findSpecificCard api fs projectPath (normalizedTemplateName api templateName)
          (the card')
      else None)"

lemma add_loop_length:
  "add_loop api fs p t ct sc n = Inr (ks, fs') \<Longrightarrow> length ks = n"
  by (induction n arbitrary: fs ks fs') (auto split: sum.splits prod.splits)

lemma add_loop_fails_later:
  assumes "add_loop api fs p t ct sc i = Inr (ks, fsi)"
    and "addCard api fsi p t ct sc = Inl (e, fse)"
    and "i < n"
  shows "add_loop api fs p t ct sc n = Inl (e, fse)"
  using assms
proof (induction i arbitrary: fs ks n)
  case 0
  then obtain m where "n = Suc m" by (cases n) auto
  with 0 show ?case by simp
next
  case (Suc i)
  then obtain m where n: "n = Suc m" and m: "i < m" by (cases n) auto
  from Suc.prems(1) obtain k fs1 ks' where
    first: "addCard api fs p t ct sc = Inr (k, fs1)"
    and rest: "add_loop api fs1 p t ct sc i = Inr (ks', fsi)"
    by (auto split: sum.splits prod.splits)
  from Suc.IH[OF rest Suc.prems(2) m] first show ?case by (simp add: n)
qed

lemma addCards_admitted:
  assumes "admits api fs p t card'"
  shows "addCards api fs p ct t card' n =
     (case add_loop api fs p (normalizedTemplateName api t) ct (parent_of api fs p t card') (nat n) of
        Inl e \<Rightarrow> Inl e
      | Inr (cardsContainer, fs') \<Rightarrow>
          if cardsContainer = [] then
            Inl (Error (''Invalid value for '' @ [CHR 0x27] @ ''repeat:''
                        @ [CHR 0x27] @ '' '' @ [CHR 0x22] @ show_int n @ [CHR 0x22]), fs')
          else
            Inr (if n > 1 then
                   show_int n @ '' cards were added to the template ''
                   @ [CHR 0x27] @ normalizedTemplateName api t @ '' : ''
                   @ stringify_keys api cardsContainer @ [CHR 0x27]
                 else
                   ''card '' @ [CHR 0x27] @ hd cardsContainer @ [CHR 0x27]
                   @ '' was added to the template '' @ [CHR 0x27]
                   @ normalizedTemplateName api t @ [CHR 0x27],
                 fs'))"
  using assms
  by (auto simp: addCards_def admits_def parent_of_def truthy_def Let_def
      split: sum.splits prod.splits)

lemma add_loop_fails_at:
  assumes "add_loop api fs p t ct sc n = Inl (e, fse)"
  shows "\<exists>i ks fsi. i < n \<and> add_loop api fs p t ct sc i = Inr (ks, fsi) \<and>
                    addCard api fsi p t ct sc = Inl (e, fse)"
  using assms
proof (induction n arbitrary: fs)
  case 0
  then show ?case by simp
next
  case (Suc n)
  show ?case
  proof (cases "addCard api fs p t ct sc")
    case (Inl x)
    with Suc.prems have "addCard api fs p t ct sc = Inl (e, fse)" by simp
    then show ?thesis by (intro exI[of _ 0] exI[of _ "[]"] exI[of _ fs]) simp
  next
    case (Inr y)
    then obtain k fs1 where first: "addCard api fs p t ct sc = Inr (k, fs1)" by (cases y) auto
    with Suc.prems have "add_loop api fs1 p t ct sc n = Inl (e, fse)"
      by (auto split: sum.splits prod.splits)
    from Suc.IH[OF this] obtain i ks fsi where i: "i < n"
      "add_loop api fs1 p t ct sc i = Inr (ks, fsi)" "addCard api fsi p t ct sc = Inl (e, fse)"
      by blast
    then have "add_loop api fs p t ct sc (Suc i) = Inr (k # ks, fsi)"
      using first by simp
    with i show ?thesis by (intro exI[of _ "Suc i"] exI[of _ "k # ks"] exI[of _ fsi]) simp
  qed
qed

text \<open>
  Claim C1, as the code has it. Where the checks before the loop pass: when a call of
  \<^verbatim>\<open>addCard\<close> fails, after any number of calls that succeeded, \<open>addCards\<close> fails as
  a whole, with the error of that call, and reports none of the cards that were added.
  It succeeds only when the count is positive and every one of the calls succeeded, and
  then it does succeed, with the message that names the cards. For a positive count an
  error of \<open>addCards\<close> is the error of a call that failed. The error
  \<^verbatim>\<open>Invalid value for 'repeat:'\<close> is what a count that is not positive gives, with
  no call made.
\<close>

theorem addCards_all_or_nothing:
  assumes "admits api fs p t card'"
  shows "(i < nat n \<and>
          add_loop api fs p (normalizedTemplateName api t) ct (parent_of api fs p t card') i
            = Inr (ks, fsi) \<and>
          addCard api fsi p (normalizedTemplateName api t) ct (parent_of api fs p t card')
            = Inl (e, fse) \<longrightarrow>
          addCards api fs p ct t card' n = Inl (e, fse))
       \<and> (addCards api fs p ct t card' n = Inr (msg, fs') \<longrightarrow>
          0 < n \<and>
          (\<exists>keys. add_loop api fs p (normalizedTemplateName api t) ct
                     (parent_of api fs p t card') (nat n) = Inr (keys, fs') \<and>
                   length keys = nat n))
       \<and> (0 < n \<and>
          add_loop api fs p (normalizedTemplateName api t) ct (parent_of api fs p t card') (nat n)
            = Inr (keys, fs') \<longrightarrow>
          addCards api fs p ct t card' n
            = Inr (if n > 1 then
                     show_int n @ '' cards were added to the template ''
                     @ [CHR 0x27] @ normalizedTemplateName api t @ '' : ''
                     @ stringify_keys api keys @ [CHR 0x27]
                   else
                     ''card '' @ [CHR 0x27] @ hd keys @ [CHR 0x27]
                     @ '' was added to the template '' @ [CHR 0x27]
                     @ normalizedTemplateName api t @ [CHR 0x27],
                   fs'))
       \<and> (0 < n \<and> addCards api fs p ct t card' n = Inl (e, fse) \<longrightarrow>
          (\<exists>i ks fsi. i < nat n \<and>
             add_loop api fs p (normalizedTemplateName api t) ct (parent_of api fs p t card') i
               = Inr (ks, fsi) \<and>
             addCard api fsi p (normalizedTemplateName api t) ct (parent_of api fs p t card')
               = Inl (e, fse)))
       \<and> (n \<le> 0 \<longrightarrow>
          addCards api fs p ct t card' n
            = Inl (Error (''Invalid value for '' @ [CHR 0x27] @ ''repeat:''
                          @ [CHR 0x27] @ '' '' @ [CHR 0x22] @ show_int n @ [CHR 0x22]), fs))"
proof (intro conjI impI)
  assume "i < nat n \<and>
          add_loop api fs p (normalizedTemplateName api t) ct (parent_of api fs p t card') i
            = Inr (ks, fsi) \<and>
          addCard api fsi p (normalizedTemplateName api t) ct (parent_of api fs p t card')
            = Inl (e, fse)"
  then have "add_loop api fs p (normalizedTemplateName api t) ct (parent_of api fs p t card')
               (nat n) = Inl (e, fse)"
    using add_loop_fails_later by blast
  then show "addCards api fs p ct t card' n = Inl (e, fse)"
    by (simp add: addCards_admitted[OF assms])
next
  assume ok: "addCards api fs p ct t card' n = Inr (msg, fs')"
  then obtain keys where keys:
    "add_loop api fs p (normalizedTemplateName api t) ct (parent_of api fs p t card') (nat n)
       = Inr (keys, fs')" "keys \<noteq> []"
    by (auto simp: addCards_admitted[OF assms] split: sum.splits prod.splits if_splits)
  then have len: "length keys = nat n" by (auto dest: add_loop_length)
  with keys(2) show "0 < n" by (cases "0 < n") auto
  from keys(1) len
  show "\<exists>keys. add_loop api fs p (normalizedTemplateName api t) ct
                     (parent_of api fs p t card') (nat n) = Inr (keys, fs') \<and>
                   length keys = nat n"
    by blast
next
  assume a: "0 < n \<and>
          add_loop api fs p (normalizedTemplateName api t) ct (parent_of api fs p t card') (nat n)
            = Inr (keys, fs')"
  then have "length keys = nat n" by (auto dest: add_loop_length)
  with a have "keys \<noteq> []" by auto
  with a show "addCards api fs p ct t card' n
            = Inr (if n > 1 then
                     show_int n @ '' cards were added to the template ''
                     @ [CHR 0x27] @ normalizedTemplateName api t @ '' : ''
                     @ stringify_keys api keys @ [CHR 0x27]
                   else
                     ''card '' @ [CHR 0x27] @ hd keys @ [CHR 0x27]
                     @ '' was added to the template '' @ [CHR 0x27]
                     @ normalizedTemplateName api t @ [CHR 0x27],
                   fs')"
    by (simp add: addCards_admitted[OF assms])
next
  assume a: "0 < n \<and> addCards api fs p ct t card' n = Inl (e, fse)"
  have "add_loop api fs p (normalizedTemplateName api t) ct (parent_of api fs p t card') (nat n)
          = Inl (e, fse)"
  proof (cases "add_loop api fs p (normalizedTemplateName api t) ct (parent_of api fs p t card') (nat n)")
    case (Inl x)
    with a show ?thesis by (simp add: addCards_admitted[OF assms])
  next
    case (Inr y)
    then obtain keys fs' where k: "add_loop api fs p (normalizedTemplateName api t) ct
        (parent_of api fs p t card') (nat n) = Inr (keys, fs')" by (cases y) auto
    then have "length keys = nat n" by (auto dest: add_loop_length)
    with a have "keys \<noteq> []" by auto
    with a k show ?thesis by (simp add: addCards_admitted[OF assms])
  qed
  then show "\<exists>i ks fsi. i < nat n \<and>
             add_loop api fs p (normalizedTemplateName api t) ct (parent_of api fs p t card') i
               = Inr (ks, fsi) \<and>
             addCard api fsi p (normalizedTemplateName api t) ct (parent_of api fs p t card')
               = Inl (e, fse)"
    by (rule add_loop_fails_at)
next
  assume "n \<le> 0"
  then show "addCards api fs p ct t card' n
            = Inl (Error (''Invalid value for '' @ [CHR 0x27] @ ''repeat:''
                          @ [CHR 0x27] @ '' '' @ [CHR 0x22] @ show_int n @ [CHR 0x22]), fs)"
    by (simp add: addCards_admitted[OF assms])
qed

text \<open>A template to which one card can be added and no second one.\<close>

definition quota_api :: template_api where
  "quota_api =
     \<lparr>normalizedTemplateName = (\<lambda>n. n),
      template_findSpecificCard = (\<lambda>fs p t k. None),
      templateFolder = (\<lambda>p t. p @ ''/.cards/local/templates/'' @ t),
      addCard = (\<lambda>fs p t ct parent.
         if fs (p @ ''/.cards/local/templates/'' @ t @ ''/c/abc_1'') = None then
           Inr (''abc_1'', fs(p @ ''/.cards/local/templates/'' @ t @ ''/c/abc_1'' \<mapsto> Dir))
         else Inl (Error ''no more cards'', fs)),
      stringify_keys = array_toString\<rparr>"

lemma quota_admits: "admits quota_api demo_fs ''/p'' ''page'' None"
  by (simp add: admits_def quota_api_def falsy_def str_includes_def)

text \<open>Two cards, no card and one card asked of that template.\<close>

theorem addCards_all_or_nothing_witness:
  "addCards quota_api demo_fs ''/p'' ''task'' ''page'' None 2
     = Inl (Error ''no more cards'', demo_fs(''/p/.cards/local/templates/page/c/abc_1'' \<mapsto> Dir))
 \<and> addCards quota_api demo_fs ''/p'' ''task'' ''page'' None 0
     = Inl (Error (''Invalid value for '' @ [CHR 0x27] @ ''repeat:'' @ [CHR 0x27] @ '' ''
                   @ [CHR 0x22] @ ''0'' @ [CHR 0x22]), demo_fs)
 \<and> addCards quota_api demo_fs ''/p'' ''task'' ''page'' None 1
     = Inr (''card '' @ [CHR 0x27] @ ''abc_1'' @ [CHR 0x27] @ '' was added to the template ''
            @ [CHR 0x27] @ ''page'' @ [CHR 0x27],
            demo_fs(''/p/.cards/local/templates/page/c/abc_1'' \<mapsto> Dir))"
proof -
  have free: "demo_fs ''/p/.cards/local/templates/page/c/abc_1'' = None"
    by (simp add: demo_fs_def)
  have first: "add_loop quota_api demo_fs ''/p'' ''page'' ''task'' None (Suc 0)
     = Inr ([''abc_1''], demo_fs(''/p/.cards/local/templates/page/c/abc_1'' \<mapsto> Dir))"
    using free by (simp add: quota_api_def)
  have second: "addCard quota_api (demo_fs(''/p/.cards/local/templates/page/c/abc_1'' \<mapsto> Dir))
       ''/p'' ''page'' ''task'' None
     = Inl (Error ''no more cards'', demo_fs(''/p/.cards/local/templates/page/c/abc_1'' \<mapsto> Dir))"
    by (simp add: quota_api_def)
  have np: "normalizedTemplateName quota_api ''page'' = ''page''"
    "parent_of quota_api demo_fs ''/p'' ''page'' None = None"
    by (simp_all add: quota_api_def parent_of_def truthy_def falsy_def)
  have two: "addCards quota_api demo_fs ''/p'' ''task'' ''page'' None 2
     = Inl (Error ''no more cards'', demo_fs(''/p/.cards/local/templates/page/c/abc_1'' \<mapsto> Dir))"
    using addCards_all_or_nothing[OF quota_admits, of "Suc 0" 2 "''task''" "[''abc_1'']"
        "demo_fs(''/p/.cards/local/templates/page/c/abc_1'' \<mapsto> Dir)" "Error ''no more cards''"
        "demo_fs(''/p/.cards/local/templates/page/c/abc_1'' \<mapsto> Dir)"]
      first second
    by (simp add: np)
  have zero: "addCards quota_api demo_fs ''/p'' ''task'' ''page'' None 0
     = Inl (Error (''Invalid value for '' @ [CHR 0x27] @ ''repeat:'' @ [CHR 0x27] @ '' ''
                   @ [CHR 0x22] @ ''0'' @ [CHR 0x22]), demo_fs)"
    using addCards_all_or_nothing[OF quota_admits, of 0 0 "''task''"]
    by (simp add: show_int_def digit_def)
  have one: "addCards quota_api demo_fs ''/p'' ''task'' ''page'' None 1
     = Inr (''card '' @ [CHR 0x27] @ ''abc_1'' @ [CHR 0x27] @ '' was added to the template ''
            @ [CHR 0x27] @ ''page'' @ [CHR 0x27],
            demo_fs(''/p/.cards/local/templates/page/c/abc_1'' \<mapsto> Dir))"
    using addCards_all_or_nothing[OF quota_admits, of 0 1 "''task''" "[]" demo_fs
        "Error []" demo_fs "[]"
        "demo_fs(''/p/.cards/local/templates/page/c/abc_1'' \<mapsto> Dir)" "[''abc_1'']"]
      first
    by (simp add: np)
  from two zero one show ?thesis by blast
qed

text \<open>
  Claim C1 as stated fails: of two calls the first succeeds and the second fails, and the
  operation fails as a whole.
\<close>

theorem addCards_partial_failure_fails:
  "add_loop quota_api demo_fs ''/p'' ''page'' ''task'' None 1
     = Inr ([''abc_1''], demo_fs(''/p/.cards/local/templates/page/c/abc_1'' \<mapsto> Dir))
 \<and> addCards quota_api demo_fs ''/p'' ''task'' ''page'' None 2
     = Inl (Error ''no more cards'', demo_fs(''/p/.cards/local/templates/page/c/abc_1'' \<mapsto> Dir))"
proof -
  have free: "demo_fs ''/p/.cards/local/templates/page/c/abc_1'' = None"
    by (simp add: demo_fs_def)
  have first: "add_loop quota_api demo_fs ''/p'' ''page'' ''task'' None (Suc 0)
     = Inr ([''abc_1''], demo_fs(''/p/.cards/local/templates/page/c/abc_1'' \<mapsto> Dir))"
    using free by (simp add: quota_api_def)
  have np: "normalizedTemplateName quota_api ''page'' = ''page''"
    "parent_of quota_api demo_fs ''/p'' ''page'' None = None"
    by (simp_all add: quota_api_def parent_of_def truthy_def falsy_def)
  have "add_loop quota_api demo_fs ''/p'' ''page'' ''task'' None (Suc (Suc 0))
     = Inl (Error ''no more cards'', demo_fs(''/p/.cards/local/templates/page/c/abc_1'' \<mapsto> Dir))"
    using free by (simp add: quota_api_def)
  then have "addCards quota_api demo_fs ''/p'' ''task'' ''page'' None 2
     = Inl (Error ''no more cards'', demo_fs(''/p/.cards/local/templates/page/c/abc_1'' \<mapsto> Dir))"
    by (simp add: addCards_admitted[OF quota_admits] np eval_nat_numeral)
  with first show ?thesis by simp
qed

section \<open>Renaming twice\<close>

text \<open>
  Modelled from the spec: the part of the on-disk tree that a rename reads and changes.
  A card is a directory; its attachments are the files of its folder \<^verbatim>\<open>a\<close>, its content
  is the file \<^verbatim>\<open>index.adoc\<close>. An entry is one card: the path of its directory, the
  template it is a blueprint of (none for a card of the project), the names of its
  attachment files and the text of its \<^verbatim>\<open>index.adoc\<close>. The metadata of a card is left
  out: \<^verbatim>\<open>rename.ts\<close> asks for it and does not use it.
\<close>

record entry =
  e_path :: string
  e_template :: "string option"
  e_files :: "string list"
  e_adoc :: string


text \<open>
  Modelled from the spec: the card that an enumeration gives for an entry. The content
  and the attachments are there when they are asked for; an attachment carries the path
  of the folder it lies in and its file name.
\<close>

definition to_card :: "fetchCardDetails \<Rightarrow> entry \<Rightarrow> card" where
  "to_card d e =
     \<lparr>key = basename (e_path e), path = e_path e,
      content = (if d_content d = Some True then Some (e_adoc e) else None),
      metadata = None,
      attachments =
        (if d_attachments d = Some True then
           Some (map (\<lambda>f. \<lparr>attachment_path = join (e_path e) ''a'', fileName = f\<rparr>) (e_files e))
         else None)\<rparr>"









subsection \<open>The second run changes nothing\<close>









lemma path_to_card [simp]: "path (to_card d e) = e_path e"
  by (simp add: to_card_def)








subsection \<open>What the first run leaves\<close>





































lemma untouched_longer:
  assumes "js_length p \<le> js_length old" and "p \<noteq> old"
  shows "p \<noteq> old \<and> \<not> passes_through p old"
  using assms by (simp add: not_passes_through)
















end
